theory Spec2Isabelle
  imports Complex_Main
begin

section \<open>Python strings\<close>

text \<open>
  A Python \<open>str\<close> is modelled by \<^typ>\<open>string\<close>, one \<^typ>\<open>char\<close> per code point
  below 256 (Latin-1). On these code points \<open>str.lower\<close> works character by character:
  the capitals \<open>A\<close>..\<open>Z\<close> and U+00C0..U+00DE (without the multiplication sign U+00D7)
  move up by 32, everything else stays. Code points from 256 on are outside the model.
\<close>

definition lower_char :: "char \<Rightarrow> char" where
  "lower_char c =
     (let n = (of_char c :: nat)
      in if (65 \<le> n \<and> n \<le> 90) \<or> (192 \<le> n \<and> n \<le> 222 \<and> n \<noteq> 215)
         then char_of (n + 32) else c)"

definition lower :: "string \<Rightarrow> string" where
  "lower s = map lower_char s"

text \<open>\<open>str.isspace\<close> on one code point below 256, and \<open>str.strip()\<close>.\<close>

definition isspace :: "char \<Rightarrow> bool" where
  "isspace c =
     (let n = (of_char c :: nat)
      in (9 \<le> n \<and> n \<le> 13) \<or> (28 \<le> n \<and> n \<le> 32) \<or> n = 133 \<or> n = 160)"

definition strip :: "string \<Rightarrow> string" where
  "strip s = rev (dropWhile isspace (rev (dropWhile isspace s)))"

text \<open>\<open>s.startswith(p)\<close>, \<open>s.endswith(p)\<close> and the substring test \<open>sub in s\<close>.\<close>

fun startswith :: "string \<Rightarrow> string \<Rightarrow> bool" where
  "startswith s [] = True"
| "startswith [] (p # ps) = False"
| "startswith (c # cs) (p # ps) = (c = p \<and> startswith cs ps)"

definition endswith :: "string \<Rightarrow> string \<Rightarrow> bool" where
  "endswith s p = startswith (rev s) (rev p)"

fun contains :: "string \<Rightarrow> string \<Rightarrow> bool" where
  "contains [] sub = (sub = [])"
| "contains (c # cs) sub = (startswith (c # cs) sub \<or> contains cs sub)"

text \<open>\<open>sep.join(xs)\<close>.\<close>

fun join :: "string \<Rightarrow> string list \<Rightarrow> string" where
  "join sep [] = []"
| "join sep [x] = x"
| "join sep (x # y # ys) = x @ sep @ join sep (y # ys)"

text \<open>Decimal digits of a natural number, as \<open>str(n)\<close> prints them.\<close>

fun show_nat :: "nat \<Rightarrow> string" where
  "show_nat n =
     (if n < 10 then [char_of (48 + n)]
      else show_nat (n div 10) @ [char_of (48 + n mod 10)])"

text \<open>
  The log and error messages of the repository start with the cross mark U+274C, which
  is beyond Latin-1; the model writes it as the three bytes of its UTF-8 encoding.
\<close>

definition cross_mark :: string where
  "cross_mark = [CHR 0xE2, CHR 0x9D, CHR 0x8C]"


section \<open>Document model (models/schemas.py)\<close>

text \<open>
  The three pydantic models. Their \<open>type\<close> field is a \<open>Literal\<close> with one value, so the
  tag is a function of the class (\<open>doc_type\<close> below) and is not stored. A Python \<open>float\<close>
  field is a \<^typ>\<open>real\<close>: the only operation on it here is the comparison with zero,
  which is exact on floats (a NaN compares false on both sides and satisfies neither
  \<open>\<le> 0\<close> nor \<open>> 0\<close>).
\<close>

record BillDocument =
  hospital_name :: string
  total_amount :: real
  date_of_service :: string
  patient_name :: "string option"
  bill_items :: "string list option"

record DischargeSummaryDocument =
  patient_name :: string
  diagnosis :: string
  admission_date :: string
  discharge_date :: string
  treating_doctor :: "string option"
  procedures :: "string list option"

record IDCardDocument =
  patient_name :: string
  policy_number :: string
  member_id :: string
  insurance_provider :: "string option"

datatype document =
    Bill BillDocument
  | DischargeSummary DischargeSummaryDocument
  | IDCard IDCardDocument

fun doc_type :: "document \<Rightarrow> string" where
  "doc_type (Bill b) = ''bill''"
| "doc_type (DischargeSummary d) = ''discharge_summary''"
| "doc_type (IDCard c) = ''id_card''"

text \<open>The attribute \<open>doc.patient_name\<close>; \<open>None\<close> is Python's \<open>None\<close> of the optional bill field.\<close>

fun patient_name_attr :: "document \<Rightarrow> string option" where
  "patient_name_attr (Bill b) = BillDocument.patient_name b"
| "patient_name_attr (DischargeSummary d) = Some (DischargeSummaryDocument.patient_name d)"
| "patient_name_attr (IDCard c) = Some (IDCardDocument.patient_name c)"

record ValidationResult =
  missing_documents :: "string list"
  discrepancies :: "string list"

datatype claim_status = approved | rejected | pending_review

record ClaimDecision =
  status :: claim_status
  reason :: string
  confidence_score :: "real option"


section \<open>datetime.strptime with the format %Y-%m-%d\<close>

text \<open>
  The standard library compiles the format to the regular expression
  \<^verbatim>\<open>(?P<Y>\d\d\d\d)-(?P<m>1[0-2]|0[1-9]|[1-9])-(?P<d>3[0-1]|[1-2]\d|0[1-9]|[1-9]| [1-9])\<close>,
  matches it at the start of the text, raises \<open>ValueError\<close> when there is no match or
  when text remains after the match, and then builds the date, which raises
  \<open>ValueError\<close> for the year 0 and for a day beyond the end of the month. Each
  \<open>match_\<close> function returns the number read and the rest of the text, trying the
  alternatives in the order of the expression; \<open>None\<close> is the \<open>ValueError\<close>.
  (After \<open>1[0-2]\<close> or \<open>0[1-9]\<close> has matched, the shorter alternative \<open>[1-9]\<close> would
  have to be followed by \<open>-\<close> where a digit stands, so backtracking finds nothing more.)
\<close>

definition is_digit :: "char \<Rightarrow> bool" where
  "is_digit c = (c \<in> set ''0123456789'')"

definition is_digit19 :: "char \<Rightarrow> bool" where
  "is_digit19 c = (c \<in> set ''123456789'')"

definition digit_value :: "char \<Rightarrow> nat" where
  "digit_value c = of_char c - 48"

fun match_year :: "string \<Rightarrow> (nat \<times> string) option" where
  "match_year (a # b # c # d # rest) =
     (if is_digit a \<and> is_digit b \<and> is_digit c \<and> is_digit d
      then Some (1000 * digit_value a + 100 * digit_value b + 10 * digit_value c + digit_value d, rest)
      else None)"
| "match_year s = None"

fun match_month :: "string \<Rightarrow> (nat \<times> string) option" where
  "match_month (a # b # rest) =
     (if a = CHR ''1'' \<and> b \<in> set ''012'' then Some (10 + digit_value b, rest)
      else if a = CHR ''0'' \<and> is_digit19 b then Some (digit_value b, rest)
      else if is_digit19 a then Some (digit_value a, b # rest)
      else None)"
| "match_month [a] = (if is_digit19 a then Some (digit_value a, []) else None)"
| "match_month [] = None"

fun match_day :: "string \<Rightarrow> (nat \<times> string) option" where
  "match_day (a # b # rest) =
     (if a = CHR ''3'' \<and> b \<in> set ''01'' then Some (30 + digit_value b, rest)
      else if a \<in> set ''12'' \<and> is_digit b then Some (10 * digit_value a + digit_value b, rest)
      else if a = CHR ''0'' \<and> is_digit19 b then Some (digit_value b, rest)
      else if is_digit19 a then Some (digit_value a, b # rest)
      else if a = CHR '' '' \<and> is_digit19 b then Some (digit_value b, rest)
      else None)"
| "match_day [a] = (if is_digit19 a then Some (digit_value a, []) else None)"
| "match_day [] = None"

fun match_dash :: "string \<Rightarrow> string option" where
  "match_dash [] = None"
| "match_dash (c # rest) = (if c = CHR ''-'' then Some rest else None)"

definition is_leap :: "nat \<Rightarrow> bool" where
  "is_leap y = (y mod 4 = 0 \<and> (y mod 100 \<noteq> 0 \<or> y mod 400 = 0))"

definition days_in_month :: "nat \<Rightarrow> nat \<Rightarrow> nat" where
  "days_in_month y m =
     (if m = 2 then (if is_leap y then 29 else 28)
      else if m = 4 \<or> m = 6 \<or> m = 9 \<or> m = 11 then 30 else 31)"

type_synonym date = "nat \<times> nat \<times> nat"

definition strptime :: "string \<Rightarrow> date option" where
  "strptime s =
     (case match_year s of None \<Rightarrow> None | Some (y, r1) \<Rightarrow>
      (case match_dash r1 of None \<Rightarrow> None | Some r2 \<Rightarrow>
       (case match_month r2 of None \<Rightarrow> None | Some (m, r3) \<Rightarrow>
        (case match_dash r3 of None \<Rightarrow> None | Some r4 \<Rightarrow>
         (case match_day r4 of None \<Rightarrow> None | Some (d, r5) \<Rightarrow>
            if r5 = [] \<and> 1 \<le> y \<and> d \<le> days_in_month y m then Some (y, m, d) else None)))))"

text \<open>The comparison \<open><\<close> of two dates at midnight: year, then month, then day.\<close>

fun date_less :: "date \<Rightarrow> date \<Rightarrow> bool" where
  "date_less (y1, m1, d1) (y2, m2, d2) =
     (y1 < y2 \<or> (y1 = y2 \<and> (m1 < m2 \<or> (m1 = m2 \<and> d1 < d2))))"


section \<open>Validator (agents/validator_agent.py)\<close>

definition required_types :: "string set" where
  "required_types = {''bill'', ''discharge_summary'', ''id_card''}"

text \<open>
  \<open>list(missing)\<close>: the order in which Python iterates over a set of strings depends on
  the hashes of the process and is not fixed by the program. The parameter \<open>hash_order\<close>
  stands for it: the members are listed by ascending rank. The function is applied to
  subsets of the three required types only.
\<close>

definition list_of_set :: "(string \<Rightarrow> nat) \<Rightarrow> string set \<Rightarrow> string list" where
  "list_of_set hash_order S =
     sort_key hash_order (filter (\<lambda>t. t \<in> S) [''bill'', ''discharge_summary'', ''id_card''])"

text \<open>
  \<open>next((d for d in documents if d.type == tag), None)\<close> for the three tags. The tag
  decides the class, so the result carries the fields of that class.
\<close>

fun first_discharge :: "document list \<Rightarrow> DischargeSummaryDocument option" where
  "first_discharge [] = None"
| "first_discharge (DischargeSummary d # documents) = Some d"
| "first_discharge (doc # documents) = first_discharge documents"

fun first_bill :: "document list \<Rightarrow> BillDocument option" where
  "first_bill [] = None"
| "first_bill (Bill b # documents) = Some b"
| "first_bill (doc # documents) = first_bill documents"

fun first_id_card :: "document list \<Rightarrow> IDCardDocument option" where
  "first_id_card [] = None"
| "first_id_card (IDCard c # documents) = Some c"
| "first_id_card (doc # documents) = first_id_card documents"

text \<open>Lines 26-29: the loop that collects \<open>(type, name.lower().strip())\<close>.\<close>

fun collect_patient_names :: "document list \<Rightarrow> (string \<times> string) list" where
  "collect_patient_names [] = []"
| "collect_patient_names (doc # documents) =
     (case patient_name_attr doc of
        None \<Rightarrow> collect_patient_names documents
      | Some n \<Rightarrow>
          if n \<noteq> [] then (doc_type doc, strip (lower n)) # collect_patient_names documents
          else collect_patient_names documents)"

text \<open>Lines 31-36: name consistency.\<close>

definition name_check :: "document list \<Rightarrow> string list" where
  "name_check documents =
     (let patient_names = collect_patient_names documents
      in if length patient_names > 1 \<and> card (set (map snd patient_names)) > 1
         then [''Patient name mismatch across documents''] else [])"

text \<open>Lines 38-49: date logic; a \<open>ValueError\<close> of \<open>strptime\<close> is caught and logged.\<close>

definition date_check :: "document list \<Rightarrow> string list" where
  "date_check documents =
     (case first_discharge documents of
        None \<Rightarrow> []
      | Some discharge_doc \<Rightarrow>
          (case strptime (admission_date discharge_doc) of
             None \<Rightarrow> []
           | Some admission \<Rightarrow>
               (case strptime (discharge_date discharge_doc) of
                  None \<Rightarrow> []
                | Some discharge \<Rightarrow>
                    if date_less discharge admission
                    then [''Discharge date is before admission date''] else [])))"

text \<open>Lines 51-59: bill amount.\<close>

definition bill_check :: "document list \<Rightarrow> string list" where
  "bill_check documents =
     (case first_bill documents of
        None \<Rightarrow> []
      | Some bill_doc \<Rightarrow>
          if total_amount bill_doc \<le> 0
          then [''Invalid bill amount (must be positive)''] else [])"

text \<open>Lines 61-70: ID card; the two tests are separate \<open>if\<close> statements.\<close>

definition id_card_check :: "document list \<Rightarrow> string list" where
  "id_card_check documents =
     (case first_id_card documents of
        None \<Rightarrow> []
      | Some id_doc \<Rightarrow>
          (if policy_number id_doc = [] \<or> policy_number id_doc = ''UNKNOWN''
           then [''Missing or invalid policy number''] else []) @
          (if member_id id_doc = [] \<or> member_id id_doc = ''UNKNOWN''
           then [''Missing or invalid member ID''] else []))"

text \<open>
  \<open>validate\<close> itself: the completeness check of lines 16-23 and the discrepancies of
  the four checks in the order of the code. Nothing can escape it as an exception: the
  only call that raises is \<open>strptime\<close>, inside its \<open>try\<close>, and the attributes read
  exist on the class that the tag selects.
\<close>

definition validate :: "(string \<Rightarrow> nat) \<Rightarrow> document list \<Rightarrow> ValidationResult" where
  "validate hash_order documents =
     (let doc_types = set (map doc_type documents);
          missing = required_types - doc_types
      in \<lparr> missing_documents = (if missing \<noteq> {} then list_of_set hash_order missing else []),
           discrepancies =
             name_check documents @ date_check documents @ bill_check documents @
             id_card_check documents \<rparr>)"


section \<open>Decision policy (agents/orchestrator.py)\<close>

definition make_decision :: "document list \<Rightarrow> ValidationResult \<Rightarrow> ClaimDecision" where
  "make_decision documents validation =
     (let doc_types = set (map doc_type documents)
      in if missing_documents validation \<noteq> [] then
           \<lparr> status = rejected,
             reason = ''Missing required documents: '' @ join '', '' (missing_documents validation),
             confidence_score = Some 1.0 \<rparr>
         else if discrepancies validation \<noteq> [] then
           \<lparr> status = pending_review,
             reason = ''Data discrepancies found - manual review required: '' @
                      join ''; '' (take 2 (discrepancies validation)),
             confidence_score = Some 0.6 \<rparr>
         else if required_types \<subseteq> doc_types then
           \<lparr> status = approved,
             reason = ''All required documents present and data is consistent'',
             confidence_score = Some 0.95 \<rparr>
         else
           \<lparr> status = rejected,
             reason = ''Incomplete documentation'',
             confidence_score = Some 0.8 \<rparr>)"


section \<open>Exceptions and external collaborators\<close>

text \<open>
  A raised exception is a value. Every member derives from Python's \<open>Exception\<close>, which
  is what the handlers of the repository catch; \<open>ValueError\<close> is kept apart because the
  HTTP endpoint answers it differently. A function that can raise returns
  \<open>exn + 'a\<close>, with \<open>Inl\<close> for the exception.
\<close>

datatype exn = ValueError string | OtherException string


section \<open>Classifier (agents/classifier_agent.py)\<close>

definition bill_keywords :: "string list" where
  "bill_keywords = [''bill'', ''invoice'', ''payment'', ''receipt'']"

definition discharge_keywords :: "string list" where
  "discharge_keywords = [''discharge'', ''summary'', ''report'']"

definition id_keywords :: "string list" where
  "id_keywords = [''id'', ''card'', ''policy'', ''insurance'']"

definition valid_types :: "string list" where
  "valid_types = [''bill'', ''discharge_summary'', ''id_card'']"

text \<open>
  \<open>get_completion\<close> is the free-text collaborator, called with the prompt (the system
  prompt is a constant of the agent): it raises, or returns the text of the response,
  which can be Python's \<open>None\<close>. The second component of the result of \<open>classify\<close> is
  the list of prompts sent to the collaborator during the call.
\<close>

definition classify :: "(string \<Rightarrow> exn + string option) \<Rightarrow> string \<Rightarrow> string \<times> string list" where
  "classify get_completion fname =
     (let filename_lower = lower fname
      in if \<exists>kw \<in> set bill_keywords. contains filename_lower kw then (''bill'', [])
         else if \<exists>kw \<in> set discharge_keywords. contains filename_lower kw
           then (''discharge_summary'', [])
         else if \<exists>kw \<in> set id_keywords. contains filename_lower kw then (''id_card'', [])
         else
           (let prompt = ''Classify this document: '' @ fname
            in (case get_completion prompt of
                  Inl e \<Rightarrow> ''bill''
                | Inr None \<Rightarrow> ''bill''
                | Inr (Some answer) \<Rightarrow>
                    (let classification = lower (strip answer)
                     in if classification \<in> set valid_types then classification else ''bill''),
                [prompt])))"


section \<open>Field extractors (agents/bill_agent.py, discharge_agent.py, id_card_agent.py)\<close>

text \<open>
  Each agent owns one structured-extraction service. \<open>get_structured_output\<close> is its
  call on the prompt (system prompt and schema are constants of the agent) and returns
  the decoded response of some type \<open>'r\<close> or raises. \<open>build_model\<close> is the pydantic
  constructor of the agent's document class applied to the response, which raises when
  the response does not fit the schema. Both run inside the \<open>try\<close> block.
\<close>

definition newline :: string where
  "newline = [CHR 0x0A]"

definition bill_sentinel :: BillDocument where
  "bill_sentinel =
     \<lparr> hospital_name = ''Unknown Hospital'', total_amount = 0.0,
       date_of_service = ''2024-01-01'', BillDocument.patient_name = None,
       bill_items = None \<rparr>"

definition discharge_sentinel :: DischargeSummaryDocument where
  "discharge_sentinel =
     \<lparr> DischargeSummaryDocument.patient_name = ''Unknown Patient'', diagnosis = ''Unknown'',
       admission_date = ''2024-01-01'', discharge_date = ''2024-01-02'',
       treating_doctor = None, procedures = None \<rparr>"

definition id_card_sentinel :: IDCardDocument where
  "id_card_sentinel =
     \<lparr> patient_name = ''Unknown'', policy_number = ''UNKNOWN'', member_id = ''UNKNOWN'',
       insurance_provider = None \<rparr>"

text \<open>The prompt of each agent: a fixed frame around \<open>text[:3000]\<close>.\<close>

definition bill_prompt :: "string \<Rightarrow> string" where
  "bill_prompt text =
     ''Extract data from this medical bill:'' @ newline @ newline @
     take 3000 text @ newline @ newline @ ''Return valid JSON only.''"

definition discharge_prompt :: "string \<Rightarrow> string" where
  "discharge_prompt text =
     ''Extract data from this discharge summary:'' @ newline @ newline @
     take 3000 text @ newline @ newline @ ''Return valid JSON only.''"

definition id_card_prompt :: "string \<Rightarrow> string" where
  "id_card_prompt text =
     ''Extract data from this insurance ID card:'' @ newline @ newline @
     take 3000 text @ newline @ newline @ ''Return valid JSON only.''"

definition BillAgent_process ::
  "(string \<Rightarrow> exn + 'r) \<Rightarrow> ('r \<Rightarrow> exn + BillDocument) \<Rightarrow> string \<Rightarrow> string \<Rightarrow> exn + document" where
  "BillAgent_process get_structured_output build_model text fname =
     (let prompt = bill_prompt text
      in case get_structured_output prompt of
           Inl e \<Rightarrow> Inr (Bill bill_sentinel)
         | Inr response \<Rightarrow>
             (case build_model response of
                Inl e \<Rightarrow> Inr (Bill bill_sentinel)
              | Inr b \<Rightarrow> Inr (Bill b)))"

definition DischargeAgent_process ::
  "(string \<Rightarrow> exn + 'r) \<Rightarrow> ('r \<Rightarrow> exn + DischargeSummaryDocument) \<Rightarrow> string \<Rightarrow> string
     \<Rightarrow> exn + document" where
  "DischargeAgent_process get_structured_output build_model text fname =
     (let prompt = discharge_prompt text
      in case get_structured_output prompt of
           Inl e \<Rightarrow> Inr (DischargeSummary discharge_sentinel)
         | Inr response \<Rightarrow>
             (case build_model response of
                Inl e \<Rightarrow> Inr (DischargeSummary discharge_sentinel)
              | Inr d \<Rightarrow> Inr (DischargeSummary d)))"

definition IDCardAgent_process ::
  "(string \<Rightarrow> exn + 'r) \<Rightarrow> ('r \<Rightarrow> exn + IDCardDocument) \<Rightarrow> string \<Rightarrow> string \<Rightarrow> exn + document" where
  "IDCardAgent_process get_structured_output build_model text fname =
     (let prompt = id_card_prompt text
      in case get_structured_output prompt of
           Inl e \<Rightarrow> Inr (IDCard id_card_sentinel)
         | Inr response \<Rightarrow>
             (case build_model response of
                Inl e \<Rightarrow> Inr (IDCard id_card_sentinel)
              | Inr c \<Rightarrow> Inr (IDCard c)))"


section \<open>Routing (agents/orchestrator.py)\<close>

text \<open>
  The orchestrator holds its three agents; an agent is its \<open>process\<close> method, a function
  of the text and the file name that returns a document or raises. \<open>route_to_agent\<close>
  returns Python's \<open>None\<close> (here \<open>Inr None\<close>) for a skipped file.
\<close>

type_synonym agent = "string \<Rightarrow> string \<Rightarrow> exn + document"

record ClaimOrchestrator =
  bill_agent :: agent
  discharge_agent :: agent
  id_card_agent :: agent

definition agent_map :: "ClaimOrchestrator \<Rightarrow> string \<rightharpoonup> agent" where
  "agent_map self =
     [''bill'' \<mapsto> bill_agent self,
      ''discharge_summary'' \<mapsto> discharge_agent self,
      ''id_card'' \<mapsto> id_card_agent self]"

definition route_to_agent ::
  "ClaimOrchestrator \<Rightarrow> string \<Rightarrow> string \<Rightarrow> string \<Rightarrow> exn + document option" where
  "route_to_agent self tag text fname =
     (case agent_map self tag of
        Some agent \<Rightarrow>
          (case agent text fname of
             Inr doc_data \<Rightarrow> Inr (Some doc_data)
           | Inl e \<Rightarrow> Inr None)
      | None \<Rightarrow> Inr None)"

text \<open>
  Step 3 of \<open>process_claim\<close>: the loop over the files, their classifications and their
  extracted texts, which appends to \<open>documents\<close> what the routing returns. An entry is
  (file name, classification, text).
\<close>

fun route_documents ::
  "ClaimOrchestrator \<Rightarrow> (string \<times> string \<times> string) list \<Rightarrow> document list \<Rightarrow> exn + document list" where
  "route_documents self [] documents = Inr documents"
| "route_documents self ((fname, classification, text) # entries) documents =
     (case route_to_agent self classification text fname of
        Inl e \<Rightarrow> Inl e
      | Inr None \<Rightarrow> route_documents self entries documents
      | Inr (Some doc_data) \<Rightarrow> route_documents self entries (documents @ [doc_data]))"


section \<open>Upload validation (utils/helpers.py) and the endpoint (main.py)\<close>

text \<open>
  An uploaded file is its name and its bytes. The validation reads each file from the
  start and seeks back to the start, so the read position is not part of the model.
\<close>

record UploadFile =
  filename :: string
  content :: "char list"

definition MAX_FILE_SIZE :: nat where
  "MAX_FILE_SIZE = 25 * 1024 * 1024"

text \<open>A file name between apostrophes, as the f-strings of the messages write it.\<close>

definition quoted :: "string \<Rightarrow> string" where
  "quoted s = [CHR 0x27] @ s @ [CHR 0x27]"

text \<open>
  \<open>f"{len(content) / (1024 * 1024):.2f}"\<close>: the quotient by a power of two is exact in
  floating point for every length below \<open>2 ^ 53\<close>, and the format rounds it to two
  decimals, a tie going to the even neighbour.
\<close>

definition format_mb :: "nat \<Rightarrow> string" where
  "format_mb n =
     (let q = (n * 100) div 1048576;
          r = (n * 100) mod 1048576;
          cents = (if 2 * r > 1048576 \<or> (2 * r = 1048576 \<and> odd q) then q + 1 else q)
      in show_nat (cents div 100) @ ''.'' @ show_nat (cents mod 100 div 10) @ show_nat (cents mod 10))"

fun check_files :: "UploadFile list \<Rightarrow> exn + bool" where
  "check_files [] = Inr True"
| "check_files (file # files) =
     (if \<not> endswith (lower (filename file)) ''.pdf'' then
        Inl (ValueError (cross_mark @ '' '' @ quoted (filename file) @ '' is not a PDF''))
      else if filename file = [] then
        Inl (ValueError (cross_mark @ '' Invalid filename''))
      else if length (content file) > MAX_FILE_SIZE then
        Inl (ValueError (cross_mark @ '' '' @ quoted (filename file) @ '' exceeds 25MB ('' @
                         format_mb (length (content file)) @ ''MB)''))
      else if length (content file) = 0 then
        Inl (ValueError (cross_mark @ '' '' @ quoted (filename file) @ '' is empty''))
      else check_files files)"

definition validate_pdf_files :: "UploadFile list \<Rightarrow> exn + bool" where
  "validate_pdf_files files =
     (if length files < 1 then Inl (ValueError (cross_mark @ '' At least one PDF file required''))
      else check_files files)"

text \<open>
  The endpoint \<open>process_claim\<close> of main.py answers with a result or with an
  \<open>HTTPException\<close>. Its two handlers turn a \<open>ValueError\<close> into status 400 with
  the message of the error, and every other exception into status 500.
\<close>

datatype 'a http_result = HTTPException nat string | Response 'a

fun http_error :: "exn \<Rightarrow> 'a http_result" where
  "http_error (ValueError ve) = HTTPException 400 ve"
| "http_error (OtherException e) = HTTPException 500 (''Internal server error: '' @ e)"

text \<open>
  The loop that saves the uploaded files. \<open>stage\<close> is the work on one file inside the
  temporary directory (building the path, reading the upload, opening and writing the
  file): it returns the path as a string or raises, as \<open>open\<close> does for a name with
  a directory part that does not exist. The first exception ends the loop.
\<close>

fun stage_files ::
  "(UploadFile \<Rightarrow> exn + string) \<Rightarrow> UploadFile list \<Rightarrow> exn + (string \<times> string) list" where
  "stage_files stage [] = Inr []"
| "stage_files stage (file # files) =
     (case stage file of
        Inl e \<Rightarrow> Inl e
      | Inr file_path \<Rightarrow>
          (case stage_files stage files of
             Inl e \<Rightarrow> Inl e
           | Inr file_paths \<Rightarrow> Inr ((file_path, filename file) # file_paths)))"

text \<open>
  \<open>orchestrator\<close> is the module-level orchestrator (\<open>None\<close> when its construction
  failed), given by its \<open>process_claim\<close> method on the list of (path, file name)
  entries. \<open>make_temp_dir\<close> is the creation of the temporary directory, which returns
  its path or raises, and \<open>stage\<close> the work on one file in that directory. The test
  of the orchestrator stands before the \<open>try\<close>; the validation, the staging and the
  call of the orchestrator stand inside it. The second component of the result is the
  list of invocations of the orchestrator made by the request, each with its argument.
\<close>

definition main_process_claim ::
  "((string \<times> string) list \<Rightarrow> exn + 'a) option \<Rightarrow> exn + string \<Rightarrow>
     (string \<Rightarrow> UploadFile \<Rightarrow> exn + string) \<Rightarrow> UploadFile list
     \<Rightarrow> 'a http_result \<times> (string \<times> string) list list" where
  "main_process_claim orchestrator make_temp_dir stage files =
     (case orchestrator of
        None \<Rightarrow>
          (HTTPException 503 ''Orchestrator not initialized. Check API keys and configuration.'', [])
      | Some orchestrator_process_claim \<Rightarrow>
          (case validate_pdf_files files of
             Inl e \<Rightarrow> (http_error e, [])
           | Inr ok \<Rightarrow>
               (case make_temp_dir of
                  Inl e \<Rightarrow> (http_error e, [])
                | Inr temp_dir \<Rightarrow>
                    (case stage_files (stage temp_dir) files of
                       Inl e \<Rightarrow> (http_error e, [])
                     | Inr file_paths \<Rightarrow>
                         (case orchestrator_process_claim file_paths of
                            Inr result \<Rightarrow> (Response result, [file_paths])
                          | Inl e \<Rightarrow> (http_error e, [file_paths]))))))"


section \<open>Notions of the specification\<close>

text \<open>
  The words of the specification that the claims about the classifier and the upload
  validation use, written without the functions of the code. A file name mentions a
  keyword set when some piece of it equals one of the keywords up to the case of its
  letters. A file name has the extension .pdf when it ends in a piece that equals
  \<open>.pdf\<close> up to the case of its letters. An uploaded file is offending when its name
  lacks the extension, when it is empty, or when it is larger than 25 MB.
\<close>

definition mentions :: "string list \<Rightarrow> string \<Rightarrow> bool" where
  "mentions keywords fname =
     (\<exists>kw \<in> set keywords. \<exists>ps piece ss. fname = ps @ piece @ ss \<and> lower piece = kw)"

definition has_pdf_extension :: "string \<Rightarrow> bool" where
  "has_pdf_extension fname = (\<exists>stem ext. fname = stem @ ext \<and> lower ext = ''.pdf'')"

definition offending :: "UploadFile \<Rightarrow> bool" where
  "offending file =
     (\<not> has_pdf_extension (filename file) \<or> content file = [] \<or>
      length (content file) > 25 * 1024 * 1024)"

text \<open>
  A message identifies an offending file name of a batch when the batch holds an
  offending file whose name stands in the message between apostrophes.
\<close>

definition names_offending_file :: "UploadFile list \<Rightarrow> string \<Rightarrow> bool" where
  "names_offending_file files msg =
     (\<exists>file \<in> set files. offending file \<and> contains msg (quoted (filename file)))"

text \<open>
  The message that rejects an offending file: it names the file between apostrophes and
  says what is wrong with it, the extension first, then the size, then the emptiness.
\<close>

definition rejection :: "UploadFile \<Rightarrow> string" where
  "rejection file =
     (if \<not> has_pdf_extension (filename file)
        then cross_mark @ '' '' @ quoted (filename file) @ '' is not a PDF''
      else if length (content file) > 25 * 1024 * 1024
        then cross_mark @ '' '' @ quoted (filename file) @ '' exceeds 25MB ('' @
             format_mb (length (content file)) @ ''MB)''
      else cross_mark @ '' '' @ quoted (filename file) @ '' is empty'')"


section \<open>Example values\<close>

text \<open>
  The values of the examples of the specification: a bill of 150.0, a stay from 2024-01-05
  to 2024-01-10, the policy POL123 and the member MEM456. The three names agree after
  lowering and stripping.
\<close>

definition sample_bill :: BillDocument where
  "sample_bill =
     \<lparr> hospital_name = ''City Hospital'', total_amount = 150.0,
       date_of_service = ''2024-01-05'', BillDocument.patient_name = Some ''Jane Roe'',
       bill_items = None \<rparr>"

definition sample_discharge :: DischargeSummaryDocument where
  "sample_discharge =
     \<lparr> DischargeSummaryDocument.patient_name = ''Jane Roe'', diagnosis = ''Fracture'',
       admission_date = ''2024-01-05'', discharge_date = ''2024-01-10'',
       treating_doctor = None, procedures = None \<rparr>"

definition sample_id_card :: IDCardDocument where
  "sample_id_card =
     \<lparr> patient_name = ''jane roe '', policy_number = ''POL123'', member_id = ''MEM456'',
       insurance_provider = None \<rparr>"

text \<open>
  A structured-extraction service whose every call fails and one that answers, an agent
  whose \<open>process\<close> raises, constructors that accept every response and one that
  rejects every response.
\<close>

definition failing_service :: "string \<Rightarrow> exn + unit" where
  "failing_service prompt = Inl (OtherException ''model API unavailable'')"

definition raising_agent :: agent where
  "raising_agent text fname = Inl (ValueError ''unexpected'')"

definition answering_service :: "string \<Rightarrow> exn + unit" where
  "answering_service prompt = Inr ()"

definition reject_bill :: "unit \<Rightarrow> exn + BillDocument" where
  "reject_bill response = Inl (ValueError ''1 validation error for BillDocument'')"

definition accept_discharge :: "unit \<Rightarrow> exn + DischargeSummaryDocument" where
  "accept_discharge response = Inr sample_discharge"

definition accept_bill :: "unit \<Rightarrow> exn + BillDocument" where
  "accept_bill response = Inr sample_bill"

definition accept_id_card :: "unit \<Rightarrow> exn + IDCardDocument" where
  "accept_id_card response = Inr sample_id_card"

definition sample_orchestrator :: ClaimOrchestrator where
  "sample_orchestrator =
     \<lparr> bill_agent = BillAgent_process failing_service accept_bill,
       discharge_agent = raising_agent,
       id_card_agent = IDCardAgent_process failing_service accept_id_card \<rparr>"


section \<open>Facts about the string functions\<close>

lemma startswith_iff: "startswith s p \<longleftrightarrow> (\<exists>ss. s = p @ ss)"
  by (induction s p rule: startswith.induct) auto

lemma contains_iff: "contains s sub \<longleftrightarrow> (\<exists>ps ss. s = ps @ sub @ ss)"
proof (induction s)
  case Nil
  show ?case by auto
next
  case (Cons c cs)
  show ?case
  proof
    assume "contains (c # cs) sub"
    then consider "startswith (c # cs) sub" | "contains cs sub" by auto
    then show "\<exists>ps ss. c # cs = ps @ sub @ ss"
    proof cases
      case 1
      then obtain ss where "c # cs = sub @ ss" by (auto simp: startswith_iff)
      then have "c # cs = [] @ sub @ ss" by simp
      then show ?thesis by blast
    next
      case 2
      then obtain ps ss where "cs = ps @ sub @ ss" using Cons.IH by blast
      then have "c # cs = (c # ps) @ sub @ ss" by simp
      then show ?thesis by blast
    qed
  next
    assume "\<exists>ps ss. c # cs = ps @ sub @ ss"
    then obtain ps ss where e: "c # cs = ps @ sub @ ss" by blast
    show "contains (c # cs) sub"
    proof (cases ps)
      case Nil
      with e have "startswith (c # cs) sub" by (auto simp: startswith_iff)
      then show ?thesis by simp
    next
      case (Cons a ps')
      with e have "cs = ps' @ sub @ ss" by simp
      then have "contains cs sub" using Cons.IH by blast
      then show ?thesis by simp
    qed
  qed
qed

lemma contains_append: "contains s x \<Longrightarrow> contains (p @ s) x"
proof -
  assume "contains s x"
  then obtain ps ss where "s = ps @ x @ ss" unfolding contains_iff by blast
  then have "p @ s = (p @ ps) @ x @ ss" by simp
  then show ?thesis unfolding contains_iff by blast
qed

lemma contains_join: "x \<in> set xs \<Longrightarrow> contains (join sep xs) x"
proof (induction sep xs rule: join.induct)
  case (1 sep)
  then show ?case by simp
next
  case (2 sep y)
  then have "y = [] @ x @ []" by simp
  then show ?case unfolding join.simps contains_iff by blast
next
  case (3 sep a b ys)
  show ?case
  proof (cases "x = a")
    case True
    have "join sep (a # b # ys) = [] @ x @ (sep @ join sep (b # ys))" using True by simp
    then show ?thesis unfolding contains_iff by blast
  next
    case False
    with 3 have "contains (join sep (b # ys)) x" by simp
    then obtain ps ss where "join sep (b # ys) = ps @ x @ ss" unfolding contains_iff by blast
    then have "join sep (a # b # ys) = (a @ sep @ ps) @ x @ ss" by simp
    then show ?thesis unfolding contains_iff by blast
  qed
qed


section \<open>Facts about the validator\<close>

lemma set_list_of_set: "S \<subseteq> required_types \<Longrightarrow> set (list_of_set h S) = S"
  by (auto simp: list_of_set_def required_types_def)

lemma distinct_list_of_set: "distinct (list_of_set h S)"
  by (simp add: list_of_set_def)

lemma missing_set: "set (missing_documents (validate h ds)) = required_types - doc_type ` set ds"
  by (auto simp: validate_def Let_def set_list_of_set)

lemma missing_distinct: "distinct (missing_documents (validate h ds))"
  by (simp add: validate_def Let_def distinct_list_of_set)

lemma distinct_singleton: "distinct xs \<Longrightarrow> set xs = {t} \<Longrightarrow> xs = [t]"
  by (cases xs) (auto simp: subset_singleton_iff)

lemma discrepancies_validate:
  "discrepancies (validate h ds) = name_check ds @ date_check ds @ bill_check ds @ id_card_check ds"
  by (simp add: validate_def Let_def)

lemma name_check_cases:
  "name_check ds = [] \<or> name_check ds = [''Patient name mismatch across documents'']"
  by (simp add: name_check_def Let_def)

lemma date_check_cases:
  "date_check ds = [] \<or> date_check ds = [''Discharge date is before admission date'']"
  by (simp add: date_check_def split: option.splits)

lemma bill_check_cases:
  "bill_check ds = [] \<or> bill_check ds = [''Invalid bill amount (must be positive)'']"
  by (simp add: bill_check_def split: option.splits)

lemma id_card_check_subset:
  "set (id_card_check ds) \<subseteq> {''Missing or invalid policy number'', ''Missing or invalid member ID''}"
  by (auto simp: id_card_check_def split: option.splits)

text \<open>The five messages are different texts, so each one can only come from its own check.\<close>

lemma name_msg_iff:
  "''Patient name mismatch across documents'' \<in> set (discrepancies (validate h ds)) \<longleftrightarrow>
   name_check ds = [''Patient name mismatch across documents'']"
  using name_check_cases [of ds] date_check_cases [of ds] bill_check_cases [of ds]
    id_card_check_subset [of ds]
  by (auto simp: discrepancies_validate)

lemma date_msg_iff:
  "''Discharge date is before admission date'' \<in> set (discrepancies (validate h ds)) \<longleftrightarrow>
   date_check ds = [''Discharge date is before admission date'']"
  using name_check_cases [of ds] date_check_cases [of ds] bill_check_cases [of ds]
    id_card_check_subset [of ds]
  by (auto simp: discrepancies_validate)

lemma bill_msg_iff:
  "''Invalid bill amount (must be positive)'' \<in> set (discrepancies (validate h ds)) \<longleftrightarrow>
   bill_check ds = [''Invalid bill amount (must be positive)'']"
  using name_check_cases [of ds] date_check_cases [of ds] bill_check_cases [of ds]
    id_card_check_subset [of ds]
  by (auto simp: discrepancies_validate)

lemma policy_msg_iff:
  "''Missing or invalid policy number'' \<in> set (discrepancies (validate h ds)) \<longleftrightarrow>
   ''Missing or invalid policy number'' \<in> set (id_card_check ds)"
  using name_check_cases [of ds] date_check_cases [of ds] bill_check_cases [of ds]
  by (auto simp: discrepancies_validate)

lemma member_msg_iff:
  "''Missing or invalid member ID'' \<in> set (discrepancies (validate h ds)) \<longleftrightarrow>
   ''Missing or invalid member ID'' \<in> set (id_card_check ds)"
  using name_check_cases [of ds] date_check_cases [of ds] bill_check_cases [of ds]
  by (auto simp: discrepancies_validate)

text \<open>The first document of a type, when the list is cut at it.\<close>

lemma first_bill_append:
  "\<forall>x \<in> set pre. doc_type x \<noteq> ''bill'' \<Longrightarrow> first_bill (pre @ Bill b # post) = Some b"
  by (induction pre rule: first_bill.induct) auto

lemma first_discharge_append:
  "\<forall>x \<in> set pre. doc_type x \<noteq> ''discharge_summary'' \<Longrightarrow>
   first_discharge (pre @ DischargeSummary d # post) = Some d"
  by (induction pre rule: first_discharge.induct) auto

lemma first_id_card_append:
  "\<forall>x \<in> set pre. doc_type x \<noteq> ''id_card'' \<Longrightarrow> first_id_card (pre @ IDCard c # post) = Some c"
  by (induction pre rule: first_id_card.induct) auto

lemma date_check_first:
  assumes "\<forall>x \<in> set pre. doc_type x \<noteq> ''discharge_summary''"
  shows "date_check (pre @ DischargeSummary dd # post) =
     (case strptime (admission_date dd) of
        None \<Rightarrow> []
      | Some admission \<Rightarrow>
          (case strptime (discharge_date dd) of
             None \<Rightarrow> []
           | Some discharge \<Rightarrow>
               if date_less discharge admission
               then [''Discharge date is before admission date''] else []))"
  using assms by (simp add: date_check_def first_discharge_append)

lemma bill_check_first:
  assumes "\<forall>x \<in> set pre. doc_type x \<noteq> ''bill''"
  shows "bill_check (pre @ Bill b # post) =
     (if total_amount b \<le> 0 then [''Invalid bill amount (must be positive)''] else [])"
  using assms by (simp add: bill_check_def first_bill_append)

lemma id_card_check_first:
  assumes "\<forall>x \<in> set pre. doc_type x \<noteq> ''id_card''"
  shows "id_card_check (pre @ IDCard c # post) =
     (if policy_number c = [] \<or> policy_number c = ''UNKNOWN''
      then [''Missing or invalid policy number''] else []) @
     (if member_id c = [] \<or> member_id c = ''UNKNOWN''
      then [''Missing or invalid member ID''] else [])"
  using assms by (simp add: id_card_check_def first_id_card_append)

lemmas strptime_eval =
  strptime_def is_digit_def is_digit19_def digit_value_def days_in_month_def is_leap_def


section \<open>The decision table\<close>

text \<open>
  Claim C1. \<open>make_decision\<close> is an ordered table in which the first matching rule wins.
  Rule 1: when \<open>missing_documents\<close> is not empty the claim is rejected with confidence
  1.0, and the reason is the fixed prefix followed by the missing types joined by commas,
  so every missing type occurs in it. Rule 2: otherwise, when \<open>discrepancies\<close> is not
  empty, the claim is pending review with confidence 0.6 and the reason is built from the
  first two discrepancies and no others, each of which occurs in it. Rule 3: otherwise,
  when the types of the documents include bill, discharge_summary and id_card, the claim
  is approved with the fixed reason and confidence 0.95. Rule 4: otherwise it is rejected
  with the reason "Incomplete documentation" and confidence 0.8.
\<close>

theorem decision_table:
  "(missing_documents validation \<noteq> [] \<longrightarrow>
      make_decision documents validation =
        \<lparr> status = rejected,
          reason = ''Missing required documents: '' @ join '', '' (missing_documents validation),
          confidence_score = Some 1.0 \<rparr> \<and>
      (\<forall>m \<in> set (missing_documents validation).
         contains (reason (make_decision documents validation)) m)) \<and>
   (missing_documents validation = [] \<and> discrepancies validation \<noteq> [] \<longrightarrow>
      make_decision documents validation =
        \<lparr> status = pending_review,
          reason = ''Data discrepancies found - manual review required: '' @
                   join ''; '' (take 2 (discrepancies validation)),
          confidence_score = Some 0.6 \<rparr> \<and>
      (\<forall>d \<in> set (take 2 (discrepancies validation)).
         contains (reason (make_decision documents validation)) d)) \<and>
   (missing_documents validation = [] \<and> discrepancies validation = [] \<and>
    {''bill'', ''discharge_summary'', ''id_card''} \<subseteq> doc_type ` set documents \<longrightarrow>
      make_decision documents validation =
        \<lparr> status = approved,
          reason = ''All required documents present and data is consistent'',
          confidence_score = Some 0.95 \<rparr>) \<and>
   (missing_documents validation = [] \<and> discrepancies validation = [] \<and>
    \<not> {''bill'', ''discharge_summary'', ''id_card''} \<subseteq> doc_type ` set documents \<longrightarrow>
      make_decision documents validation =
        \<lparr> status = rejected, reason = ''Incomplete documentation'',
          confidence_score = Some 0.8 \<rparr>)"
proof (intro conjI impI)
  assume m: "missing_documents validation \<noteq> []"
  then show r1: "make_decision documents validation =
        \<lparr> status = rejected,
          reason = ''Missing required documents: '' @ join '', '' (missing_documents validation),
          confidence_score = Some 1.0 \<rparr>"
    by (simp add: make_decision_def)
  show "\<forall>m \<in> set (missing_documents validation).
         contains (reason (make_decision documents validation)) m"
    unfolding r1 by (simp add: contains_join contains_append)
next
  assume a: "missing_documents validation = [] \<and> discrepancies validation \<noteq> []"
  then show r2: "make_decision documents validation =
        \<lparr> status = pending_review,
          reason = ''Data discrepancies found - manual review required: '' @
                   join ''; '' (take 2 (discrepancies validation)),
          confidence_score = Some 0.6 \<rparr>"
    by (simp add: make_decision_def)
  show "\<forall>d \<in> set (take 2 (discrepancies validation)).
         contains (reason (make_decision documents validation)) d"
    unfolding r2 by (simp add: contains_join contains_append)
next
  assume "missing_documents validation = [] \<and> discrepancies validation = [] \<and>
    {''bill'', ''discharge_summary'', ''id_card''} \<subseteq> doc_type ` set documents"
  then show "make_decision documents validation =
        \<lparr> status = approved,
          reason = ''All required documents present and data is consistent'',
          confidence_score = Some 0.95 \<rparr>"
    by (simp add: make_decision_def required_types_def)
next
  assume "missing_documents validation = [] \<and> discrepancies validation = [] \<and>
    \<not> {''bill'', ''discharge_summary'', ''id_card''} \<subseteq> doc_type ` set documents"
  then show "make_decision documents validation =
        \<lparr> status = rejected, reason = ''Incomplete documentation'',
          confidence_score = Some 0.8 \<rparr>"
    by (simp add: make_decision_def required_types_def)
qed

text \<open>One input for each of the four rules; the third discrepancy is left out of the reason.\<close>

theorem decision_table_witness:
  "make_decision [] \<lparr> missing_documents = [''id_card'', ''bill''], discrepancies = [] \<rparr> =
     \<lparr> status = rejected, reason = ''Missing required documents: id_card, bill'',
       confidence_score = Some 1.0 \<rparr> \<and>
   contains ''Missing required documents: id_card, bill'' ''bill'' \<and>
   make_decision [] \<lparr> missing_documents = [], discrepancies = [''a'', ''b'', ''c''] \<rparr> =
     \<lparr> status = pending_review,
       reason = ''Data discrepancies found - manual review required: a; b'',
       confidence_score = Some 0.6 \<rparr> \<and>
   make_decision [Bill sample_bill, IDCard sample_id_card, DischargeSummary sample_discharge]
       \<lparr> missing_documents = [], discrepancies = [] \<rparr> =
     \<lparr> status = approved,
       reason = ''All required documents present and data is consistent'',
       confidence_score = Some 0.95 \<rparr> \<and>
   make_decision [Bill sample_bill] \<lparr> missing_documents = [], discrepancies = [] \<rparr> =
     \<lparr> status = rejected, reason = ''Incomplete documentation'', confidence_score = Some 0.8 \<rparr>"
  using decision_table [of "\<lparr> missing_documents = [''id_card'', ''bill''], discrepancies = [] \<rparr>" "[]"]
    decision_table [of "\<lparr> missing_documents = [], discrepancies = [''a'', ''b'', ''c''] \<rparr>" "[]"]
    decision_table [of "\<lparr> missing_documents = [], discrepancies = [] \<rparr>"
      "[Bill sample_bill, IDCard sample_id_card, DischargeSummary sample_discharge]"]
    decision_table [of "\<lparr> missing_documents = [], discrepancies = [] \<rparr>" "[Bill sample_bill]"]
  by simp


section \<open>Completeness\<close>

text \<open>
  Claim C2. For every list of documents and every iteration order of the set, the
  members of \<open>missing_documents\<close> are the three required types without the types
  present in the list. When exactly one required type \<open>t\<close> is absent,
  \<open>missing_documents\<close> is the list with the single member \<open>t\<close>, and the decision on
  the documents and this validation is rejected with confidence 1.0.
\<close>

theorem completeness:
  "set (missing_documents (validate hash_order documents)) =
     {''bill'', ''discharge_summary'', ''id_card''} - doc_type ` set documents \<and>
   (\<forall>t. {''bill'', ''discharge_summary'', ''id_card''} - doc_type ` set documents = {t} \<longrightarrow>
      missing_documents (validate hash_order documents) = [t] \<and>
      status (make_decision documents (validate hash_order documents)) = rejected \<and>
      confidence_score (make_decision documents (validate hash_order documents)) = Some 1.0)"
proof (intro conjI allI impI)
  show s: "set (missing_documents (validate hash_order documents)) =
     {''bill'', ''discharge_summary'', ''id_card''} - doc_type ` set documents"
    using missing_set [of hash_order documents] by (simp add: required_types_def)
  fix t
  assume "{''bill'', ''discharge_summary'', ''id_card''} - doc_type ` set documents = {t}"
  with s have "set (missing_documents (validate hash_order documents)) = {t}" by simp
  then show m: "missing_documents (validate hash_order documents) = [t]"
    using missing_distinct [of hash_order documents] by (rule distinct_singleton [rotated])
  then show "status (make_decision documents (validate hash_order documents)) = rejected"
    by (simp add: make_decision_def)
  from m show "confidence_score (make_decision documents (validate hash_order documents)) = Some 1.0"
    by (simp add: make_decision_def)
qed

text \<open>
  A bill and an ID card without a discharge summary, and the bill alone of the scenario
  of the specification.
\<close>

theorem completeness_witness:
  "missing_documents (validate (\<lambda>t. 0) [Bill sample_bill, IDCard sample_id_card]) =
     [''discharge_summary''] \<and>
   status (make_decision [Bill sample_bill, IDCard sample_id_card]
             (validate (\<lambda>t. 0) [Bill sample_bill, IDCard sample_id_card])) = rejected \<and>
   confidence_score (make_decision [Bill sample_bill, IDCard sample_id_card]
             (validate (\<lambda>t. 0) [Bill sample_bill, IDCard sample_id_card])) = Some 1.0 \<and>
   set (missing_documents (validate (\<lambda>t. 0) [Bill sample_bill])) =
     {''discharge_summary'', ''id_card''}"
proof -
  have one: "{''bill'', ''discharge_summary'', ''id_card''} -
      doc_type ` set [Bill sample_bill, IDCard sample_id_card] = {''discharge_summary''}"
    by auto
  have two: "{''bill'', ''discharge_summary'', ''id_card''} - doc_type ` set [Bill sample_bill] =
      {''discharge_summary'', ''id_card''}"
    by auto
  show ?thesis
    using completeness [of "\<lambda>t. 0" "[Bill sample_bill, IDCard sample_id_card]"]
      completeness [of "\<lambda>t. 0" "[Bill sample_bill]"]
    unfolding one two by simp
qed


section \<open>The fallback rule\<close>

text \<open>
  Claim C3. When the validation result is the one the validator computes on the same
  documents, the decision is never the fallback of rule 4 (rejected, "Incomplete
  documentation", 0.8), and its reason is never that text: whenever
  \<open>missing_documents\<close> is empty, the types present include the three required types.
\<close>

theorem fallback_unreachable:
  "make_decision documents (validate hash_order documents) \<noteq>
     \<lparr> status = rejected, reason = ''Incomplete documentation'', confidence_score = Some 0.8 \<rparr> \<and>
   reason (make_decision documents (validate hash_order documents)) \<noteq> ''Incomplete documentation'' \<and>
   (missing_documents (validate hash_order documents) = [] \<longrightarrow>
      {''bill'', ''discharge_summary'', ''id_card''} \<subseteq> doc_type ` set documents)"
proof -
  have sup: "{''bill'', ''discharge_summary'', ''id_card''} \<subseteq> doc_type ` set documents"
    if "missing_documents (validate hash_order documents) = []"
  proof -
    have "required_types - doc_type ` set documents = {}"
      using missing_set [of hash_order documents] that by simp
    then show ?thesis by (simp add: required_types_def)
  qed
  have r: "reason (make_decision documents (validate hash_order documents)) \<noteq>
      ''Incomplete documentation''"
  proof (cases "missing_documents (validate hash_order documents) = []")
    case False
    then show ?thesis by (simp add: make_decision_def)
  next
    case True
    then show ?thesis using sup
      by (simp add: make_decision_def required_types_def)
  qed
  then have "make_decision documents (validate hash_order documents) \<noteq>
     \<lparr> status = rejected, reason = ''Incomplete documentation'', confidence_score = Some 0.8 \<rparr>"
    by (metis ClaimDecision.select_convs(2))
  with r sup show ?thesis by blast
qed

text \<open>The three sample documents: nothing is missing and all three types are present.\<close>

theorem fallback_unreachable_witness:
  "missing_documents (validate (\<lambda>t. 0)
      [Bill sample_bill, DischargeSummary sample_discharge, IDCard sample_id_card]) = [] \<and>
   {''bill'', ''discharge_summary'', ''id_card''} \<subseteq>
      doc_type ` set [Bill sample_bill, DischargeSummary sample_discharge, IDCard sample_id_card] \<and>
   make_decision [Bill sample_bill, DischargeSummary sample_discharge, IDCard sample_id_card]
      (validate (\<lambda>t. 0) [Bill sample_bill, DischargeSummary sample_discharge, IDCard sample_id_card]) \<noteq>
     \<lparr> status = rejected, reason = ''Incomplete documentation'', confidence_score = Some 0.8 \<rparr>"
proof -
  have "missing_documents (validate (\<lambda>t. 0)
      [Bill sample_bill, DischargeSummary sample_discharge, IDCard sample_id_card]) = []"
    by (simp add: validate_def Let_def required_types_def)
  then show ?thesis
    using fallback_unreachable [of "[Bill sample_bill, DischargeSummary sample_discharge,
      IDCard sample_id_card]" "\<lambda>t. 0"]
    by blast
qed


section \<open>The checks on the first document of a type\<close>

text \<open>
  In the next three claims the list is written \<open>pre @ doc # post\<close> with no document
  of the type of \<open>doc\<close> in \<open>pre\<close>: \<open>doc\<close> is the document of its type that the validator
  looks at, the only one when the list has one document of that type.
\<close>

text \<open>
  Claim C6. Let a list of documents hold a discharge summary. When its admission date and
  its discharge date both parse in the format YYYY-MM-DD, the text "Discharge date is
  before admission date" is among the discrepancies exactly when the discharge date is
  strictly before the admission date. When one of the two dates does not parse, the date
  check emits nothing: the failure of the parser is a branch of the check that yields
  the empty list, and the text is not among the discrepancies.
\<close>

theorem date_ordering:
  assumes "\<forall>x \<in> set pre. doc_type x \<noteq> ''discharge_summary''"
  shows "(\<forall>admission discharge.
            strptime (admission_date dd) = Some admission \<and>
            strptime (discharge_date dd) = Some discharge \<longrightarrow>
            (''Discharge date is before admission date''
               \<in> set (discrepancies (validate hash_order (pre @ DischargeSummary dd # post)))
             \<longleftrightarrow> date_less discharge admission)) \<and>
         (strptime (admission_date dd) = None \<or> strptime (discharge_date dd) = None \<longrightarrow>
            date_check (pre @ DischargeSummary dd # post) = [] \<and>
            ''Discharge date is before admission date''
               \<notin> set (discrepancies (validate hash_order (pre @ DischargeSummary dd # post))))"
  unfolding date_msg_iff date_check_first [OF assms]
  by (auto split: option.splits)

text \<open>
  The example of the specification: admitted 2024-01-05, discharged 2024-01-01 (present)
  or 2024-01-10 (absent); and a discharge date in another format (absent).
\<close>

theorem date_ordering_witness:
  "''Discharge date is before admission date''
     \<in> set (discrepancies (validate (\<lambda>t. 0)
         [Bill sample_bill,
          DischargeSummary (sample_discharge
            \<lparr> admission_date := ''2024-01-05'', discharge_date := ''2024-01-01'' \<rparr>)])) \<and>
   ''Discharge date is before admission date''
     \<notin> set (discrepancies (validate (\<lambda>t. 0)
         [Bill sample_bill,
          DischargeSummary (sample_discharge
            \<lparr> admission_date := ''2024-01-05'', discharge_date := ''2024-01-10'' \<rparr>)])) \<and>
   ''Discharge date is before admission date''
     \<notin> set (discrepancies (validate (\<lambda>t. 0)
         [Bill sample_bill,
          DischargeSummary (sample_discharge
            \<lparr> admission_date := ''2024-01-05'', discharge_date := ''01/01/2024'' \<rparr>)]))"
proof -
  have pre: "\<forall>x \<in> set [Bill sample_bill]. doc_type x \<noteq> ''discharge_summary''" by simp
  have a: "strptime ''2024-01-05'' = Some (2024, 1, 5)" by (simp add: strptime_eval)
  have d1: "strptime ''2024-01-01'' = Some (2024, 1, 1)" by (simp add: strptime_eval)
  have d2: "strptime ''2024-01-10'' = Some (2024, 1, 10)" by (simp add: strptime_eval)
  have d3: "strptime ''01/01/2024'' = None" by (simp add: strptime_eval)
  show ?thesis
    using date_ordering [OF pre, where hash_order = "\<lambda>t. 0" and post = "[]"
        and dd = "sample_discharge
          \<lparr> admission_date := ''2024-01-05'', discharge_date := ''2024-01-01'' \<rparr>"]
      date_ordering [OF pre, where hash_order = "\<lambda>t. 0" and post = "[]"
        and dd = "sample_discharge
          \<lparr> admission_date := ''2024-01-05'', discharge_date := ''2024-01-10'' \<rparr>"]
      date_ordering [OF pre, where hash_order = "\<lambda>t. 0" and post = "[]"
        and dd = "sample_discharge
          \<lparr> admission_date := ''2024-01-05'', discharge_date := ''01/01/2024'' \<rparr>"]
    by (simp add: a d1 d2 d3)
qed

text \<open>
  Claim C7. Let a list of documents hold a bill. The text "Invalid bill amount (must be
  positive)" is among the discrepancies when the total amount of the bill is at most 0,
  and is not among them when the total amount is positive.
\<close>

theorem bill_sanity:
  assumes "\<forall>x \<in> set pre. doc_type x \<noteq> ''bill''"
  shows "(total_amount b \<le> 0 \<longrightarrow>
            ''Invalid bill amount (must be positive)''
              \<in> set (discrepancies (validate hash_order (pre @ Bill b # post)))) \<and>
         (0 < total_amount b \<longrightarrow>
            ''Invalid bill amount (must be positive)''
              \<notin> set (discrepancies (validate hash_order (pre @ Bill b # post))))"
  unfolding bill_msg_iff bill_check_first [OF assms] by simp

text \<open>The amounts 0, -20 and 150.0.\<close>

theorem bill_sanity_witness:
  "''Invalid bill amount (must be positive)''
     \<in> set (discrepancies (validate (\<lambda>t. 0)
         [IDCard sample_id_card, Bill (sample_bill \<lparr> total_amount := 0 \<rparr>)])) \<and>
   ''Invalid bill amount (must be positive)''
     \<in> set (discrepancies (validate (\<lambda>t. 0)
         [IDCard sample_id_card, Bill (sample_bill \<lparr> total_amount := - 20 \<rparr>)])) \<and>
   ''Invalid bill amount (must be positive)''
     \<notin> set (discrepancies (validate (\<lambda>t. 0)
         [IDCard sample_id_card, Bill (sample_bill \<lparr> total_amount := 150.0 \<rparr>)]))"
proof -
  have pre: "\<forall>x \<in> set [IDCard sample_id_card]. doc_type x \<noteq> ''bill''" by simp
  show ?thesis
    using bill_sanity [OF pre, where hash_order = "\<lambda>t. 0" and post = "[]"
        and b = "sample_bill \<lparr> total_amount := 0 \<rparr>"]
      bill_sanity [OF pre, where hash_order = "\<lambda>t. 0" and post = "[]"
        and b = "sample_bill \<lparr> total_amount := - 20 \<rparr>"]
      bill_sanity [OF pre, where hash_order = "\<lambda>t. 0" and post = "[]"
        and b = "sample_bill \<lparr> total_amount := 150.0 \<rparr>"]
    by simp
qed

text \<open>
  Claim C8. Let a list of documents hold an ID card. "Missing or invalid policy number"
  is among the discrepancies exactly when the policy number of the card is empty or is
  "UNKNOWN", and "Missing or invalid member ID" is among them exactly when its member ID
  is empty or is "UNKNOWN". Each equivalence mentions one field only, so neither test
  depends on the outcome of the other.
\<close>

theorem id_card_sanity:
  assumes "\<forall>x \<in> set pre. doc_type x \<noteq> ''id_card''"
  shows "(''Missing or invalid policy number''
            \<in> set (discrepancies (validate hash_order (pre @ IDCard c # post)))
          \<longleftrightarrow> policy_number c = [] \<or> policy_number c = ''UNKNOWN'') \<and>
         (''Missing or invalid member ID''
            \<in> set (discrepancies (validate hash_order (pre @ IDCard c # post)))
          \<longleftrightarrow> member_id c = [] \<or> member_id c = ''UNKNOWN'')"
  unfolding policy_msg_iff member_msg_iff id_card_check_first [OF assms] by simp

text \<open>
  The policy number "UNKNOWN" with a good member ID, the card POL123 / MEM456, and an
  empty member ID with a good policy number.
\<close>

theorem id_card_sanity_witness:
  "''Missing or invalid policy number''
     \<in> set (discrepancies (validate (\<lambda>t. 0)
         [Bill sample_bill, IDCard (sample_id_card \<lparr> policy_number := ''UNKNOWN'' \<rparr>)])) \<and>
   ''Missing or invalid member ID''
     \<notin> set (discrepancies (validate (\<lambda>t. 0)
         [Bill sample_bill, IDCard (sample_id_card \<lparr> policy_number := ''UNKNOWN'' \<rparr>)])) \<and>
   ''Missing or invalid policy number''
     \<notin> set (discrepancies (validate (\<lambda>t. 0) [Bill sample_bill, IDCard sample_id_card])) \<and>
   ''Missing or invalid member ID''
     \<notin> set (discrepancies (validate (\<lambda>t. 0) [Bill sample_bill, IDCard sample_id_card])) \<and>
   ''Missing or invalid member ID''
     \<in> set (discrepancies (validate (\<lambda>t. 0)
         [Bill sample_bill, IDCard (sample_id_card \<lparr> member_id := [] \<rparr>)])) \<and>
   ''Missing or invalid policy number''
     \<notin> set (discrepancies (validate (\<lambda>t. 0)
         [Bill sample_bill, IDCard (sample_id_card \<lparr> member_id := [] \<rparr>)]))"
proof -
  have pre: "\<forall>x \<in> set [Bill sample_bill]. doc_type x \<noteq> ''id_card''" by simp
  show ?thesis
    using id_card_sanity [OF pre, where hash_order = "\<lambda>t. 0" and post = "[]"
        and c = "sample_id_card \<lparr> policy_number := ''UNKNOWN'' \<rparr>"]
      id_card_sanity [OF pre, where hash_order = "\<lambda>t. 0" and post = "[]" and c = sample_id_card]
      id_card_sanity [OF pre, where hash_order = "\<lambda>t. 0" and post = "[]"
        and c = "sample_id_card \<lparr> member_id := [] \<rparr>"]
    by (simp add: sample_id_card_def)
qed


section \<open>Which documents each check reads\<close>

lemma card_gt_one_iff: "finite A \<Longrightarrow> 1 < card A \<longleftrightarrow> (\<exists>x \<in> A. \<exists>y \<in> A. x \<noteq> y)"
proof
  assume "finite A" "1 < card A"
  then obtain x where x: "x \<in> A" by (cases "A = {}") auto
  with \<open>finite A\<close> \<open>1 < card A\<close> have "card (A - {x}) > 0" by simp
  then obtain y where "y \<in> A - {x}" by (metis card_gt_0_iff equals0I)
  with x show "\<exists>x \<in> A. \<exists>y \<in> A. x \<noteq> y" by blast
next
  assume f: "finite A" and "\<exists>x \<in> A. \<exists>y \<in> A. x \<noteq> y"
  then obtain x y where xy: "x \<in> A" "y \<in> A" "x \<noteq> y" by blast
  then have "{x, y} \<subseteq> A" by simp
  with f have "card {x, y} \<le> card A" by (rule card_mono)
  with xy show "1 < card A" by simp
qed

lemma set_collect_patient_names:
  "snd ` set (collect_patient_names ds) =
   {strip (lower n) | d n. d \<in> set ds \<and> patient_name_attr d = Some n \<and> n \<noteq> []}"
  by (induction ds) (auto split: option.splits)

lemma name_check_iff:
  "name_check ds = [''Patient name mismatch across documents''] \<longleftrightarrow>
   (\<exists>d1 \<in> set ds. \<exists>d2 \<in> set ds. \<exists>n1 n2.
      patient_name_attr d1 = Some n1 \<and> n1 \<noteq> [] \<and> patient_name_attr d2 = Some n2 \<and> n2 \<noteq> [] \<and>
      strip (lower n1) \<noteq> strip (lower n2))"
proof -
  let ?names = "collect_patient_names ds"
  have len: "1 < length ?names" if "1 < card (snd ` set ?names)"
  proof -
    have "card (snd ` set ?names) \<le> card (set ?names)" by (simp add: card_image_le)
    also have "\<dots> \<le> length ?names" by (rule card_length)
    finally show ?thesis using that by simp
  qed
  have "name_check ds = [''Patient name mismatch across documents''] \<longleftrightarrow>
        1 < card (snd ` set ?names)"
    using len by (auto simp: name_check_def Let_def)
  also have "\<dots> \<longleftrightarrow> (\<exists>x \<in> snd ` set ?names. \<exists>y \<in> snd ` set ?names. x \<noteq> y)"
    by (rule card_gt_one_iff) simp
  also have "\<dots> \<longleftrightarrow> (\<exists>d1 \<in> set ds. \<exists>d2 \<in> set ds. \<exists>n1 n2.
      patient_name_attr d1 = Some n1 \<and> n1 \<noteq> [] \<and> patient_name_attr d2 = Some n2 \<and> n2 \<noteq> [] \<and>
      strip (lower n1) \<noteq> strip (lower n2))"
    unfolding set_collect_patient_names by blast
  finally show ?thesis .
qed

text \<open>
  Claim C10. The bill, date and ID-card checks read the first document of their type in
  the order of the list and no other. Write the list as \<open>pre @ doc # post\<close> with no
  document of the type of \<open>doc\<close> in \<open>pre\<close>. Then, whatever \<open>post\<close> holds, the bill
  message is reported exactly when the total amount of the first bill is at most 0 (so a
  later bill with a non-positive amount produces nothing), the date message exactly when
  the two dates of the first discharge summary parse and the discharge is before the
  admission, and the two ID-card messages exactly when the policy number, respectively
  the member ID, of the first ID card is empty or "UNKNOWN". The name check ranges over
  the whole list: its message is reported exactly when two documents anywhere in the list
  carry non-empty patient names that differ after lowering and stripping.
\<close>

theorem first_document_only:
  "((\<forall>x \<in> set pre. doc_type x \<noteq> ''bill'') \<longrightarrow>
      (''Invalid bill amount (must be positive)''
         \<in> set (discrepancies (validate hash_order (pre @ Bill b # post)))
       \<longleftrightarrow> total_amount b \<le> 0)) \<and>
   ((\<forall>x \<in> set pre. doc_type x \<noteq> ''discharge_summary'') \<longrightarrow>
      (''Discharge date is before admission date''
         \<in> set (discrepancies (validate hash_order (pre @ DischargeSummary dd # post)))
       \<longleftrightarrow> (\<exists>admission discharge.
             strptime (admission_date dd) = Some admission \<and>
             strptime (discharge_date dd) = Some discharge \<and>
             date_less discharge admission))) \<and>
   ((\<forall>x \<in> set pre. doc_type x \<noteq> ''id_card'') \<longrightarrow>
      (''Missing or invalid policy number''
         \<in> set (discrepancies (validate hash_order (pre @ IDCard c # post)))
       \<longleftrightarrow> policy_number c = [] \<or> policy_number c = ''UNKNOWN'') \<and>
      (''Missing or invalid member ID''
         \<in> set (discrepancies (validate hash_order (pre @ IDCard c # post)))
       \<longleftrightarrow> member_id c = [] \<or> member_id c = ''UNKNOWN'')) \<and>
   (''Patient name mismatch across documents'' \<in> set (discrepancies (validate hash_order documents))
    \<longleftrightarrow> (\<exists>d1 \<in> set documents. \<exists>d2 \<in> set documents. \<exists>n1 n2.
           patient_name_attr d1 = Some n1 \<and> n1 \<noteq> [] \<and>
           patient_name_attr d2 = Some n2 \<and> n2 \<noteq> [] \<and>
           strip (lower n1) \<noteq> strip (lower n2)))"
proof (intro conjI impI)
  assume "\<forall>x \<in> set pre. doc_type x \<noteq> ''bill''"
  then show "''Invalid bill amount (must be positive)''
         \<in> set (discrepancies (validate hash_order (pre @ Bill b # post)))
       \<longleftrightarrow> total_amount b \<le> 0"
    unfolding bill_msg_iff by (simp add: bill_check_first)
next
  assume "\<forall>x \<in> set pre. doc_type x \<noteq> ''discharge_summary''"
  then show "''Discharge date is before admission date''
         \<in> set (discrepancies (validate hash_order (pre @ DischargeSummary dd # post)))
       \<longleftrightarrow> (\<exists>admission discharge.
             strptime (admission_date dd) = Some admission \<and>
             strptime (discharge_date dd) = Some discharge \<and>
             date_less discharge admission)"
    unfolding date_msg_iff by (auto simp: date_check_first split: option.splits)
next
  assume a: "\<forall>x \<in> set pre. doc_type x \<noteq> ''id_card''"
  then show "''Missing or invalid policy number''
         \<in> set (discrepancies (validate hash_order (pre @ IDCard c # post)))
       \<longleftrightarrow> policy_number c = [] \<or> policy_number c = ''UNKNOWN''"
    unfolding policy_msg_iff by (simp add: id_card_check_first)
  from a show "''Missing or invalid member ID''
         \<in> set (discrepancies (validate hash_order (pre @ IDCard c # post)))
       \<longleftrightarrow> member_id c = [] \<or> member_id c = ''UNKNOWN''"
    unfolding member_msg_iff by (simp add: id_card_check_first)
next
  show "''Patient name mismatch across documents'' \<in> set (discrepancies (validate hash_order documents))
    \<longleftrightarrow> (\<exists>d1 \<in> set documents. \<exists>d2 \<in> set documents. \<exists>n1 n2.
           patient_name_attr d1 = Some n1 \<and> n1 \<noteq> [] \<and>
           patient_name_attr d2 = Some n2 \<and> n2 \<noteq> [] \<and>
           strip (lower n1) \<noteq> strip (lower n2))"
    unfolding name_msg_iff by (rule name_check_iff)
qed

text \<open>
  A second bill of -5 after a bill of 150 is not reported, while the same two bills in the
  other order are; a second discharge summary with reversed dates and a second ID card
  with bad numbers are not reported; a different name on a second ID card is.
\<close>

theorem first_document_only_witness:
  "''Invalid bill amount (must be positive)''
     \<notin> set (discrepancies (validate (\<lambda>t. 0)
         [Bill sample_bill, Bill (sample_bill \<lparr> total_amount := - 5 \<rparr>)])) \<and>
   ''Invalid bill amount (must be positive)''
     \<in> set (discrepancies (validate (\<lambda>t. 0)
         [Bill (sample_bill \<lparr> total_amount := - 5 \<rparr>), Bill sample_bill])) \<and>
   ''Discharge date is before admission date''
     \<notin> set (discrepancies (validate (\<lambda>t. 0)
         [DischargeSummary sample_discharge,
          DischargeSummary (sample_discharge \<lparr> discharge_date := ''2024-01-01'' \<rparr>)])) \<and>
   ''Missing or invalid policy number''
     \<notin> set (discrepancies (validate (\<lambda>t. 0)
         [IDCard sample_id_card,
          IDCard (sample_id_card \<lparr> policy_number := ''UNKNOWN'', member_id := [] \<rparr>)])) \<and>
   ''Missing or invalid member ID''
     \<notin> set (discrepancies (validate (\<lambda>t. 0)
         [IDCard sample_id_card,
          IDCard (sample_id_card \<lparr> policy_number := ''UNKNOWN'', member_id := [] \<rparr>)])) \<and>
   ''Patient name mismatch across documents''
     \<in> set (discrepancies (validate (\<lambda>t. 0)
         [Bill sample_bill, IDCard sample_id_card,
          IDCard (sample_id_card \<lparr> IDCardDocument.patient_name := ''John Doe'' \<rparr>)]))"
proof -
  have a: "strptime (admission_date sample_discharge) = Some (2024, 1, 5)"
    by (simp add: sample_discharge_def strptime_eval)
  have d: "strptime (discharge_date sample_discharge) = Some (2024, 1, 10)"
    by (simp add: sample_discharge_def strptime_eval)
  have n1: "strip (lower ''Jane Roe'') = ''jane roe''"
    by (simp add: strip_def lower_def lower_char_def isspace_def char_of_eq_iff)
  have n2: "strip (lower ''John Doe'') = ''john doe''"
    by (simp add: strip_def lower_def lower_char_def isspace_def char_of_eq_iff)
  have names: "\<exists>d1 \<in> set [Bill sample_bill, IDCard sample_id_card,
          IDCard (sample_id_card \<lparr> IDCardDocument.patient_name := ''John Doe'' \<rparr>)].
      \<exists>d2 \<in> set [Bill sample_bill, IDCard sample_id_card,
          IDCard (sample_id_card \<lparr> IDCardDocument.patient_name := ''John Doe'' \<rparr>)].
      \<exists>n1 n2. patient_name_attr d1 = Some n1 \<and> n1 \<noteq> [] \<and>
           patient_name_attr d2 = Some n2 \<and> n2 \<noteq> [] \<and>
           strip (lower n1) \<noteq> strip (lower n2)"
  proof (intro bexI exI conjI)
    show "patient_name_attr (Bill sample_bill) = Some ''Jane Roe''"
      by (simp add: sample_bill_def)
    show "patient_name_attr (IDCard (sample_id_card \<lparr> IDCardDocument.patient_name := ''John Doe'' \<rparr>))
        = Some ''John Doe''"
      by simp
    show "strip (lower ''Jane Roe'') \<noteq> strip (lower ''John Doe'')"
      unfolding n1 n2 by simp
  qed simp_all
  show ?thesis
    using first_document_only [where hash_order = "\<lambda>t. 0" and pre = "[]" and post =
          "[Bill (sample_bill \<lparr> total_amount := - 5 \<rparr>)]" and b = sample_bill]
      first_document_only [where hash_order = "\<lambda>t. 0" and pre = "[]" and post = "[Bill sample_bill]"
          and b = "sample_bill \<lparr> total_amount := - 5 \<rparr>"]
      first_document_only [where hash_order = "\<lambda>t. 0" and pre = "[]" and dd = sample_discharge
          and post = "[DischargeSummary (sample_discharge \<lparr> discharge_date := ''2024-01-01'' \<rparr>)]"]
      first_document_only [where hash_order = "\<lambda>t. 0" and pre = "[]" and c = sample_id_card
          and post = "[IDCard (sample_id_card \<lparr> policy_number := ''UNKNOWN'', member_id := [] \<rparr>)]"]
      first_document_only [where hash_order = "\<lambda>t. 0" and documents =
          "[Bill sample_bill, IDCard sample_id_card,
            IDCard (sample_id_card \<lparr> IDCardDocument.patient_name := ''John Doe'' \<rparr>)]"]
      names
    by (simp add: a d sample_bill_def sample_id_card_def)
qed


section \<open>The classifier\<close>

lemma contains_lower_iff:
  "contains (lower s) kw \<longleftrightarrow> (\<exists>ps piece ss. s = ps @ piece @ ss \<and> lower piece = kw)"
proof
  assume "contains (lower s) kw"
  then obtain ps' ss' where "map lower_char s = ps' @ kw @ ss'"
    unfolding contains_iff lower_def by blast
  then have "\<exists>ps r. s = ps @ r \<and> ps' = map lower_char ps \<and> kw @ ss' = map lower_char r"
    by (simp only: map_eq_append_conv)
  then obtain ps r where s1: "s = ps @ r" and "map lower_char r = kw @ ss'"
    by auto
  then have "\<exists>piece ss. r = piece @ ss \<and> kw = map lower_char piece \<and> ss' = map lower_char ss"
    by (simp only: map_eq_append_conv)
  then obtain piece ss where "r = piece @ ss" and "map lower_char piece = kw"
    by auto
  with s1 have "s = ps @ piece @ ss \<and> lower piece = kw" by (simp add: lower_def)
  then show "\<exists>ps piece ss. s = ps @ piece @ ss \<and> lower piece = kw" by blast
next
  assume "\<exists>ps piece ss. s = ps @ piece @ ss \<and> lower piece = kw"
  then obtain ps piece ss where "s = ps @ piece @ ss" and "lower piece = kw" by blast
  then have "lower s = lower ps @ kw @ lower ss" by (auto simp: lower_def)
  then show "contains (lower s) kw" unfolding contains_iff by blast
qed

lemma mentions_iff: "mentions keywords fname \<longleftrightarrow> (\<exists>kw \<in> set keywords. contains (lower fname) kw)"
  by (simp add: mentions_def contains_lower_iff)

text \<open>
  Claim C4. The classifier tests the keyword sets {bill, invoice, payment, receipt},
  {discharge, summary, report} and {id, card, policy, insurance} in this order, each by a
  substring match that ignores the case of the letters, and returns the tag of the first
  set of which the file name mentions a keyword. In each of the three cases the list of
  prompts sent to the free-text collaborator is empty; in particular every file name that
  mentions a bill keyword, in any letter case, is classified as "bill" without a call
  to the collaborator, whatever the collaborator would have answered.
\<close>

theorem classify_priority:
  "set bill_keywords = {''bill'', ''invoice'', ''payment'', ''receipt''} \<and>
   set discharge_keywords = {''discharge'', ''summary'', ''report''} \<and>
   set id_keywords = {''id'', ''card'', ''policy'', ''insurance''} \<and>
   (mentions bill_keywords fname \<longrightarrow> classify get_completion fname = (''bill'', [])) \<and>
   (\<not> mentions bill_keywords fname \<and> mentions discharge_keywords fname \<longrightarrow>
      classify get_completion fname = (''discharge_summary'', [])) \<and>
   (\<not> mentions bill_keywords fname \<and> \<not> mentions discharge_keywords fname \<and>
    mentions id_keywords fname \<longrightarrow>
      classify get_completion fname = (''id_card'', []))"
proof (intro conjI impI)
  show "set bill_keywords = {''bill'', ''invoice'', ''payment'', ''receipt''}"
    by (simp add: bill_keywords_def)
  show "set discharge_keywords = {''discharge'', ''summary'', ''report''}"
    by (simp add: discharge_keywords_def)
  show "set id_keywords = {''id'', ''card'', ''policy'', ''insurance''}"
    by (simp add: id_keywords_def)
next
  assume "mentions bill_keywords fname"
  then show "classify get_completion fname = (''bill'', [])"
    unfolding mentions_iff by (simp add: classify_def Let_def)
next
  assume "\<not> mentions bill_keywords fname \<and> mentions discharge_keywords fname"
  then show "classify get_completion fname = (''discharge_summary'', [])"
    unfolding mentions_iff by (simp add: classify_def Let_def)
next
  assume "\<not> mentions bill_keywords fname \<and> \<not> mentions discharge_keywords fname \<and>
    mentions id_keywords fname"
  then show "classify get_completion fname = (''id_card'', [])"
    unfolding mentions_iff by (simp add: classify_def Let_def)
qed

text \<open>
  A bill keyword in capitals, a report, and a policy; the collaborator of the first two
  would have answered "id_card", the one of the third would have raised.
\<close>

theorem classify_priority_witness:
  "mentions bill_keywords ''Hospital_BILL_2024.PDF'' \<and>
   classify (\<lambda>prompt. Inr (Some ''id_card'')) ''Hospital_BILL_2024.PDF'' = (''bill'', []) \<and>
   \<not> mentions bill_keywords ''Final Report.pdf'' \<and>
   mentions discharge_keywords ''Final Report.pdf'' \<and>
   classify (\<lambda>prompt. Inr (Some ''id_card'')) ''Final Report.pdf'' = (''discharge_summary'', []) \<and>
   \<not> mentions bill_keywords ''Policy.pdf'' \<and> \<not> mentions discharge_keywords ''Policy.pdf'' \<and>
   mentions id_keywords ''Policy.pdf'' \<and>
   classify (\<lambda>prompt. Inl (OtherException ''unreachable'')) ''Policy.pdf'' = (''id_card'', [])"
proof -
  have low1: "lower ''Hospital_BILL_2024.PDF'' = ''hospital_bill_2024.pdf''"
    by (simp add: lower_def lower_char_def char_of_eq_iff)
  have low2: "lower ''Final Report.pdf'' = ''final report.pdf''"
    by (simp add: lower_def lower_char_def char_of_eq_iff)
  have low3: "lower ''Policy.pdf'' = ''policy.pdf''"
    by (simp add: lower_def lower_char_def char_of_eq_iff)
  have b1: "mentions bill_keywords ''Hospital_BILL_2024.PDF''"
    unfolding mentions_iff low1 by (simp add: bill_keywords_def)
  have b2: "\<not> mentions bill_keywords ''Final Report.pdf''"
    unfolding mentions_iff low2 by (simp add: bill_keywords_def)
  have d2: "mentions discharge_keywords ''Final Report.pdf''"
    unfolding mentions_iff low2 by (simp add: discharge_keywords_def)
  have b3: "\<not> mentions bill_keywords ''Policy.pdf''"
    unfolding mentions_iff low3 by (simp add: bill_keywords_def)
  have d3: "\<not> mentions discharge_keywords ''Policy.pdf''"
    unfolding mentions_iff low3 by (simp add: discharge_keywords_def)
  have i3: "mentions id_keywords ''Policy.pdf''"
    unfolding mentions_iff low3 by (simp add: id_keywords_def)
  show ?thesis
    using classify_priority [of "''Hospital_BILL_2024.PDF''" "\<lambda>prompt. Inr (Some ''id_card'')"]
      classify_priority [of "''Final Report.pdf''" "\<lambda>prompt. Inr (Some ''id_card'')"]
      classify_priority [of "''Policy.pdf''" "\<lambda>prompt. Inl (OtherException ''unreachable'')"]
      b1 b2 d2 b3 d3 i3
    by blast
qed


section \<open>Failures of the structured-extraction collaborator\<close>

lemma route_to_agent_returns: "\<exists>r. route_to_agent self tag text fname = Inr r"
  by (simp add: route_to_agent_def split: option.splits sum.splits)

lemma route_documents_returns: "\<exists>docs. route_documents self entries documents = Inr docs"
proof (induction self entries documents rule: route_documents.induct)
  case (1 self documents)
  show ?case by simp
next
  case (2 self fname classification extracted entries documents)
  obtain r where r: "route_to_agent self classification extracted fname = Inr r"
    using route_to_agent_returns by blast
  show ?case
  proof (cases r)
    case None
    with r 2 show ?thesis by simp
  next
    case (Some doc_data)
    with r 2 show ?thesis by simp
  qed
qed

text \<open>
  Claim C5. A failure of the structured-extraction collaborator does not leave the
  routing step. When the call of the collaborator raises inside \<open>process\<close>, or the
  construction of the document from its response raises, the agent returns the sentinel
  of its type; for the bill this is hospital_name "Unknown Hospital", total_amount 0.0,
  date_of_service "2024-01-01". So \<open>process\<close> of each of the three agents returns a
  document for every collaborator. When the \<open>process\<close> of whatever agent the
  orchestrator holds does raise, \<open>route_to_agent\<close> returns \<open>None\<close> and the loop
  over the files goes on with the list of documents unchanged. For every orchestrator,
  \<open>route_to_agent\<close> and the loop return a value and raise nothing.
\<close>

theorem extraction_failure_absorbed:
  "(get_bill (bill_prompt doc_text) = Inl e \<longrightarrow>
      BillAgent_process get_bill build_bill doc_text fname =
        Inr (Bill \<lparr> hospital_name = ''Unknown Hospital'', total_amount = 0.0,
                    date_of_service = ''2024-01-01'', BillDocument.patient_name = None,
                    bill_items = None \<rparr>)) \<and>
   (get_bill (bill_prompt doc_text) = Inr response_b \<and> build_bill response_b = Inl e \<longrightarrow>
      BillAgent_process get_bill build_bill doc_text fname = Inr (Bill bill_sentinel)) \<and>
   (get_discharge (discharge_prompt doc_text) = Inl e \<or>
    (get_discharge (discharge_prompt doc_text) = Inr response_d \<and> build_discharge response_d = Inl e) \<longrightarrow>
      DischargeAgent_process get_discharge build_discharge doc_text fname =
        Inr (DischargeSummary discharge_sentinel)) \<and>
   (get_id_card (id_card_prompt doc_text) = Inl e \<or>
    (get_id_card (id_card_prompt doc_text) = Inr response_c \<and> build_id_card response_c = Inl e) \<longrightarrow>
      IDCardAgent_process get_id_card build_id_card doc_text fname = Inr (IDCard id_card_sentinel)) \<and>
   (\<exists>doc. BillAgent_process get_bill build_bill doc_text fname = Inr doc) \<and>
   (\<exists>doc. DischargeAgent_process get_discharge build_discharge doc_text fname = Inr doc) \<and>
   (\<exists>doc. IDCardAgent_process get_id_card build_id_card doc_text fname = Inr doc) \<and>
   (agent_map self tag = Some agent \<and> agent doc_text fname = Inl e \<longrightarrow>
      route_to_agent self tag doc_text fname = Inr None \<and>
      route_documents self ((fname, tag, doc_text) # entries) documents =
        route_documents self entries documents) \<and>
   (\<exists>r. route_to_agent self tag doc_text fname = Inr r) \<and>
   (\<exists>docs. route_documents self entries documents = Inr docs)"
proof (intro conjI impI)
  show "\<exists>r. route_to_agent self tag doc_text fname = Inr r" by (rule route_to_agent_returns)
  show "\<exists>docs. route_documents self entries documents = Inr docs" by (rule route_documents_returns)
  show "\<exists>doc. BillAgent_process get_bill build_bill doc_text fname = Inr doc"
    by (simp add: BillAgent_process_def split: sum.splits)
  show "\<exists>doc. DischargeAgent_process get_discharge build_discharge doc_text fname = Inr doc"
    by (simp add: DischargeAgent_process_def split: sum.splits)
  show "\<exists>doc. IDCardAgent_process get_id_card build_id_card doc_text fname = Inr doc"
    by (simp add: IDCardAgent_process_def split: sum.splits)
next
  assume "get_bill (bill_prompt doc_text) = Inl e"
  then show "BillAgent_process get_bill build_bill doc_text fname =
        Inr (Bill \<lparr> hospital_name = ''Unknown Hospital'', total_amount = 0.0,
                    date_of_service = ''2024-01-01'', BillDocument.patient_name = None,
                    bill_items = None \<rparr>)"
    by (simp add: BillAgent_process_def bill_sentinel_def)
next
  assume "get_bill (bill_prompt doc_text) = Inr response_b \<and> build_bill response_b = Inl e"
  then show "BillAgent_process get_bill build_bill doc_text fname = Inr (Bill bill_sentinel)"
    by (simp add: BillAgent_process_def)
next
  assume "get_discharge (discharge_prompt doc_text) = Inl e \<or>
    (get_discharge (discharge_prompt doc_text) = Inr response_d \<and> build_discharge response_d = Inl e)"
  then show "DischargeAgent_process get_discharge build_discharge doc_text fname =
        Inr (DischargeSummary discharge_sentinel)"
    by (auto simp: DischargeAgent_process_def)
next
  assume "get_id_card (id_card_prompt doc_text) = Inl e \<or>
    (get_id_card (id_card_prompt doc_text) = Inr response_c \<and> build_id_card response_c = Inl e)"
  then show "IDCardAgent_process get_id_card build_id_card doc_text fname = Inr (IDCard id_card_sentinel)"
    by (auto simp: IDCardAgent_process_def)
next
  assume a: "agent_map self tag = Some agent \<and> agent doc_text fname = Inl e"
  then show r: "route_to_agent self tag doc_text fname = Inr None"
    by (simp add: route_to_agent_def)
  show "route_documents self ((fname, tag, doc_text) # entries) documents =
        route_documents self entries documents"
    by (simp add: r)
qed

text \<open>
  A collaborator that fails on every call, a response that the bill constructor rejects,
  and an orchestrator whose discharge agent raises: its file is skipped and the loop
  carries on with the bill.
\<close>

theorem extraction_failure_absorbed_witness:
  "BillAgent_process failing_service accept_bill ''scanned text'' ''bill.pdf'' =
     Inr (Bill \<lparr> hospital_name = ''Unknown Hospital'', total_amount = 0.0,
                 date_of_service = ''2024-01-01'', BillDocument.patient_name = None,
                 bill_items = None \<rparr>) \<and>
   BillAgent_process answering_service reject_bill ''scanned text'' ''bill.pdf'' =
     Inr (Bill bill_sentinel) \<and>
   DischargeAgent_process failing_service accept_discharge ''scanned text'' ''bill.pdf'' =
     Inr (DischargeSummary discharge_sentinel) \<and>
   IDCardAgent_process failing_service accept_id_card ''scanned text'' ''bill.pdf'' =
     Inr (IDCard id_card_sentinel) \<and>
   route_to_agent sample_orchestrator ''discharge_summary'' ''scanned text'' ''bill.pdf'' = Inr None \<and>
   route_documents sample_orchestrator
     [(''bill.pdf'', ''discharge_summary'', ''scanned text''), (''b.pdf'', ''bill'', ''more text'')] [] =
     Inr [Bill bill_sentinel]"
proof -
  have m: "agent_map sample_orchestrator ''discharge_summary'' = Some raising_agent"
    by (simp add: agent_map_def sample_orchestrator_def)
  have r: "raising_agent ''scanned text'' ''bill.pdf'' = Inl (ValueError ''unexpected'')"
    by (simp add: raising_agent_def)
  have f: "failing_service p = Inl (OtherException ''model API unavailable'')" for p
    by (simp add: failing_service_def)
  have mb: "agent_map sample_orchestrator ''bill'' =
      Some (BillAgent_process failing_service accept_bill)"
    by (simp add: agent_map_def sample_orchestrator_def)
  have bp: "BillAgent_process failing_service accept_bill t n = Inr (Bill bill_sentinel)" for t n
    by (simp add: BillAgent_process_def f)
  have rt: "route_to_agent sample_orchestrator ''bill'' t n = Inr (Some (Bill bill_sentinel))" for t n
    by (simp add: route_to_agent_def mb bp)
  have rest: "route_documents sample_orchestrator [(''b.pdf'', ''bill'', ''more text'')] [] =
      Inr [Bill bill_sentinel]"
    by (simp add: rt)
  have w1: "BillAgent_process failing_service accept_bill ''scanned text'' ''bill.pdf'' =
     Inr (Bill \<lparr> hospital_name = ''Unknown Hospital'', total_amount = 0.0,
                 date_of_service = ''2024-01-01'', BillDocument.patient_name = None,
                 bill_items = None \<rparr>)"
    using extraction_failure_absorbed [where get_bill = failing_service and build_bill = accept_bill
        and doc_text = "''scanned text''" and fname = "''bill.pdf''"
        and e = "OtherException ''model API unavailable''", THEN conjunct1] f
    by simp
  have w1b: "BillAgent_process answering_service reject_bill ''scanned text'' ''bill.pdf'' =
     Inr (Bill bill_sentinel)"
    using extraction_failure_absorbed [where get_bill = answering_service and build_bill = reject_bill
        and doc_text = "''scanned text''" and fname = "''bill.pdf''" and response_b = "()"
        and e = "ValueError ''1 validation error for BillDocument''",
        THEN conjunct2, THEN conjunct1]
    by (simp add: answering_service_def reject_bill_def)
  have w1d: "DischargeAgent_process failing_service accept_discharge ''scanned text'' ''bill.pdf'' =
     Inr (DischargeSummary discharge_sentinel)"
    using extraction_failure_absorbed [where get_discharge = failing_service
        and build_discharge = accept_discharge
        and doc_text = "''scanned text''" and fname = "''bill.pdf''"
        and e = "OtherException ''model API unavailable''",
        THEN conjunct2, THEN conjunct2, THEN conjunct1] f
    by simp
  have w2: "IDCardAgent_process failing_service accept_id_card ''scanned text'' ''bill.pdf'' =
     Inr (IDCard id_card_sentinel)"
    using extraction_failure_absorbed [where get_id_card = failing_service
        and build_id_card = accept_id_card
        and doc_text = "''scanned text''" and fname = "''bill.pdf''"
        and e = "OtherException ''model API unavailable''",
        THEN conjunct2, THEN conjunct2, THEN conjunct2, THEN conjunct1] f
    by simp
  note w3 = extraction_failure_absorbed [where self = sample_orchestrator
        and tag = "''discharge_summary''" and agent = raising_agent
        and doc_text = "''scanned text''" and fname = "''bill.pdf''" and e = "ValueError ''unexpected''"
        and entries = "[(''b.pdf'', ''bill'', ''more text'')]" and documents = "[]",
        THEN conjunct2, THEN conjunct2, THEN conjunct2, THEN conjunct2,
        THEN conjunct2, THEN conjunct2, THEN conjunct2, THEN conjunct1, THEN mp, OF conjI, OF m r]
  show ?thesis
    using w1 w1b w1d w2 w3 [THEN conjunct1] w3 [THEN conjunct2, THEN trans, OF rest]
    by (intro conjI)
qed


section \<open>Upload validation\<close>

lemma endswith_iff: "endswith s p \<longleftrightarrow> (\<exists>stem. s = stem @ p)"
proof -
  have "endswith s p \<longleftrightarrow> (\<exists>ss. rev s = rev p @ ss)"
    by (simp add: endswith_def startswith_iff)
  also have "\<dots> \<longleftrightarrow> (\<exists>stem. s = stem @ p)"
  proof
    assume "\<exists>ss. rev s = rev p @ ss"
    then obtain ss where "rev s = rev p @ ss" by blast
    then have "rev (rev s) = rev (rev p @ ss)" by simp
    then have "s = rev ss @ p" by simp
    then show "\<exists>stem. s = stem @ p" by blast
  next
    assume "\<exists>stem. s = stem @ p"
    then obtain stem where "s = stem @ p" by blast
    then have "rev s = rev p @ rev stem" by simp
    then show "\<exists>ss. rev s = rev p @ ss" by blast
  qed
  finally show ?thesis .
qed

lemma has_pdf_extension_iff: "has_pdf_extension fname \<longleftrightarrow> endswith (lower fname) ''.pdf''"
proof
  assume "has_pdf_extension fname"
  then obtain stem ext where "fname = stem @ ext" and "lower ext = ''.pdf''"
    unfolding has_pdf_extension_def by blast
  then have "lower fname = lower stem @ ''.pdf''" by (simp add: lower_def)
  then show "endswith (lower fname) ''.pdf''" unfolding endswith_iff by blast
next
  assume "endswith (lower fname) ''.pdf''"
  then obtain st where "map lower_char fname = st @ ''.pdf''"
    unfolding endswith_iff lower_def by blast
  then have "\<exists>stem ext. fname = stem @ ext \<and> st = map lower_char stem \<and> ''.pdf'' = map lower_char ext"
    by (simp only: map_eq_append_conv)
  then show "has_pdf_extension fname"
    unfolding has_pdf_extension_def lower_def by metis
qed

lemma has_pdf_extension_nonempty: "has_pdf_extension fname \<Longrightarrow> fname \<noteq> []"
  by (auto simp: has_pdf_extension_def lower_def)

lemma check_files_pass: "\<not> offending g \<Longrightarrow> check_files (g # files) = check_files files"
  by (auto simp: offending_def has_pdf_extension_iff [symmetric] MAX_FILE_SIZE_def
      dest: has_pdf_extension_nonempty)

lemma check_files_skip:
  "\<forall>g \<in> set good. \<not> offending g \<Longrightarrow> check_files (good @ files) = check_files files"
  by (induction good) (simp_all add: check_files_pass del: check_files.simps)

lemma check_files_offending:
  "offending f \<Longrightarrow> check_files (f # files) = Inl (ValueError (rejection f))"
  by (auto simp: offending_def rejection_def has_pdf_extension_iff [symmetric] MAX_FILE_SIZE_def
      dest: has_pdf_extension_nonempty)

lemma rejection_names: "contains (rejection f) (quoted (filename f))"
proof -
  have "\<exists>a b. rejection f = a @ quoted (filename f) @ b"
    unfolding rejection_def
    by (metis append.assoc)
  then show ?thesis unfolding contains_iff .
qed

lemma validate_first_offending:
  assumes "\<forall>g \<in> set good. \<not> offending g" and "offending f"
  shows "validate_pdf_files (good @ f # files) = Inl (ValueError (rejection f))"
  using assms
  by (simp add: validate_pdf_files_def check_files_skip check_files_offending del: check_files.simps)

lemma validate_offending:
  assumes "\<exists>f \<in> set files. offending f"
  shows "\<exists>f \<in> set files. offending f \<and> validate_pdf_files files = Inl (ValueError (rejection f))"
proof -
  from assms obtain good f rest where
    "files = good @ f # rest" "offending f" "\<forall>g \<in> set good. \<not> offending g"
    using split_list_first_prop [of files offending] by blast
  then show ?thesis using validate_first_offending [of good f rest] by auto
qed

text \<open>
  The batch without files. Claim C9 counts it among the batches whose \<open>ValueError\<close>
  carries a message that identifies the offending file name. The code raises for it the
  fixed text "At least one PDF file required" of the guard at the head of
  \<open>validate_pdf_files\<close>: the batch has no file to name, and the text holds no
  apostrophe, so no file name stands in it between apostrophes.
\<close>

theorem upload_validation_counterexample:
  "validate_pdf_files [] = Inl (ValueError (cross_mark @ '' At least one PDF file required'')) \<and>
   \<not> names_offending_file [] (cross_mark @ '' At least one PDF file required'') \<and>
   \<not> contains (cross_mark @ '' At least one PDF file required'') [CHR 0x27]"
  by (simp add: validate_pdf_files_def names_offending_file_def cross_mark_def)

text \<open>
  Claim C9, amended. The validation of the batch rejects every invalid batch with a
  \<open>ValueError\<close> before the orchestrator is called. A batch with an offending file (a
  name that does not end in .pdf in any letter case, no content, or more than 25 MB) is
  rejected at its first offending file, with the message of that file, which identifies
  the offending file name: the name stands in it between apostrophes. The batch without
  files is rejected with the fixed message "At least one PDF file required", which names
  no file. In both cases the endpoint answers with status 400 and the message of the
  error, and the list of invocations of the orchestrator's \<open>process_claim\<close> is
  empty, whatever the orchestrator and the staging of the files are.
\<close>

theorem upload_validation:
  "validate_pdf_files [] = Inl (ValueError (cross_mark @ '' At least one PDF file required'')) \<and>
   ((\<forall>g \<in> set good. \<not> offending g) \<and> offending f \<longrightarrow>
      validate_pdf_files (good @ f # rest) = Inl (ValueError (rejection f)) \<and>
      contains (rejection f) (quoted (filename f))) \<and>
   ((\<exists>f \<in> set files. offending f) \<longrightarrow>
      (\<exists>f \<in> set files. offending f \<and>
         validate_pdf_files files = Inl (ValueError (rejection f)) \<and>
         names_offending_file files (rejection f))) \<and>
   (files = [] \<or> (\<exists>f \<in> set files. offending f) \<longrightarrow>
      (\<exists>msg. validate_pdf_files files = Inl (ValueError msg) \<and>
         main_process_claim (Some orchestrator_process_claim) make_temp_dir stage files =
           (HTTPException 400 msg, [])) \<and>
      snd (main_process_claim orchestrator make_temp_dir stage files) = [])"
proof (intro conjI impI)
  show empty: "validate_pdf_files [] =
      Inl (ValueError (cross_mark @ '' At least one PDF file required''))"
    by (simp add: validate_pdf_files_def)
  {
    assume a: "(\<forall>g \<in> set good. \<not> offending g) \<and> offending f"
    then show "validate_pdf_files (good @ f # rest) = Inl (ValueError (rejection f))"
      by (simp add: validate_first_offending)
    show "contains (rejection f) (quoted (filename f))" by (rule rejection_names)
  }
  {
    assume "\<exists>f \<in> set files. offending f"
    then obtain f where f: "f \<in> set files" "offending f"
        "validate_pdf_files files = Inl (ValueError (rejection f))"
      using validate_offending [of files] by blast
    then have "names_offending_file files (rejection f)"
      unfolding names_offending_file_def using rejection_names [of f] by blast
    with f show "\<exists>f \<in> set files. offending f \<and>
         validate_pdf_files files = Inl (ValueError (rejection f)) \<and>
         names_offending_file files (rejection f)"
      by blast
  }
  assume bad: "files = [] \<or> (\<exists>f \<in> set files. offending f)"
  have "\<exists>msg. validate_pdf_files files = Inl (ValueError msg)"
  proof (cases "files = []")
    case True
    with empty show ?thesis by simp
  next
    case False
    with bad have "\<exists>f \<in> set files. offending f" by simp
    then show ?thesis using validate_offending [of files] by blast
  qed
  then obtain msg where msg: "validate_pdf_files files = Inl (ValueError msg)" by blast
  then have "main_process_claim (Some orchestrator_process_claim) make_temp_dir stage files =
           (HTTPException 400 msg, [])"
    by (simp add: main_process_claim_def)
  with msg show "\<exists>msg. validate_pdf_files files = Inl (ValueError msg) \<and>
         main_process_claim (Some orchestrator_process_claim) make_temp_dir stage files =
           (HTTPException 400 msg, [])"
    by blast
  from msg show "snd (main_process_claim orchestrator make_temp_dir stage files) = []"
    by (simp add: main_process_claim_def split: option.splits)
qed

text \<open>
  The empty file bill.pdf of the specification; a batch whose second file is one byte
  over 25 MB; a text file.
\<close>

theorem upload_validation_witness:
  "validate_pdf_files [\<lparr> filename = ''bill.pdf'', content = [] \<rparr>] =
     Inl (ValueError (cross_mark @ '' 'bill.pdf' is empty'')) \<and>
   contains (cross_mark @ '' 'bill.pdf' is empty'') (quoted ''bill.pdf'') \<and>
   main_process_claim (Some (\<lambda>file_paths. Inr (length file_paths))) (Inr ''/tmp/claim'')
       (\<lambda>temp_dir file. Inr (temp_dir @ ''/'' @ filename file))
       [\<lparr> filename = ''bill.pdf'', content = [] \<rparr>] =
     (HTTPException 400 (cross_mark @ '' 'bill.pdf' is empty''), []) \<and>
   validate_pdf_files
       [\<lparr> filename = ''id.pdf'', content = ''%PDF'' \<rparr>,
        \<lparr> filename = ''scan.PDF'', content = replicate 26214401 (CHR ''x'') \<rparr>,
        \<lparr> filename = ''notes.txt'', content = ''abc'' \<rparr>] =
     Inl (ValueError (cross_mark @ '' 'scan.PDF' exceeds 25MB (25.00MB)'')) \<and>
   validate_pdf_files [\<lparr> filename = ''notes.txt'', content = ''abc'' \<rparr>] =
     Inl (ValueError (cross_mark @ '' 'notes.txt' is not a PDF'')) \<and>
   offending \<lparr> filename = ''bill.pdf'', content = [] \<rparr> \<and>
   validate_pdf_files [\<lparr> filename = ''bill.pdf'', content = [] \<rparr>] =
     Inl (ValueError (rejection \<lparr> filename = ''bill.pdf'', content = [] \<rparr>))"
proof -
  let ?bill = "\<lparr> filename = ''bill.pdf'', content = [] \<rparr>"
  let ?id = "\<lparr> filename = ''id.pdf'', content = ''%PDF'' \<rparr>"
  let ?scan = "\<lparr> filename = ''scan.PDF'', content = replicate 26214401 (CHR ''x'') \<rparr>"
  let ?notes = "\<lparr> filename = ''notes.txt'', content = ''abc'' \<rparr>"
  have l1: "lower ''bill.pdf'' = ''bill.pdf''"
    by (simp add: lower_def lower_char_def char_of_eq_iff)
  have l2: "lower ''id.pdf'' = ''id.pdf''"
    by (simp add: lower_def lower_char_def char_of_eq_iff)
  have l3: "lower ''scan.PDF'' = ''scan.pdf''"
    by (simp add: lower_def lower_char_def char_of_eq_iff)
  have l4: "lower ''notes.txt'' = ''notes.txt''"
    by (simp add: lower_def lower_char_def char_of_eq_iff)
  have e1: "has_pdf_extension ''bill.pdf''"
    unfolding has_pdf_extension_iff l1 by (simp add: endswith_def)
  have e2: "has_pdf_extension ''id.pdf''"
    unfolding has_pdf_extension_iff l2 by (simp add: endswith_def)
  have e3: "has_pdf_extension ''scan.PDF''"
    unfolding has_pdf_extension_iff l3 by (simp add: endswith_def)
  have e4: "\<not> has_pdf_extension ''notes.txt''"
    unfolding has_pdf_extension_iff l4 by (simp add: endswith_def)
  have fm: "format_mb 26214401 = ''25.00''"
    by (simp add: format_mb_def Let_def char_of_eq_iff)
  have o1: "offending ?bill" by (simp add: offending_def)
  have o2: "\<forall>g \<in> set [?id]. \<not> offending g" by (simp add: offending_def e2)
  have o3: "offending ?scan" by (simp add: offending_def)
  have o4: "offending ?notes" by (simp add: offending_def e4)
  have r1: "rejection ?bill = cross_mark @ '' 'bill.pdf' is empty''"
    by (simp add: rejection_def e1 quoted_def)
  have r3: "rejection ?scan = cross_mark @ '' 'scan.PDF' exceeds 25MB (25.00MB)''"
    by (simp add: rejection_def e3 fm quoted_def)
  have r4: "rejection ?notes = cross_mark @ '' 'notes.txt' is not a PDF''"
    by (simp add: rejection_def e4 quoted_def)
  note u = upload_validation [where good = "[]" and f = ?bill and rest = "[]" and files = "[?bill]"
      and orchestrator_process_claim = "\<lambda>file_paths. Inr (length file_paths)"
      and make_temp_dir = "Inr ''/tmp/claim''"
      and stage = "\<lambda>temp_dir file. Inr (temp_dir @ ''/'' @ filename file)" and orchestrator = None]
  have v1: "validate_pdf_files [?bill] = Inl (ValueError (cross_mark @ '' 'bill.pdf' is empty''))"
    using u [THEN conjunct2, THEN conjunct1, THEN mp, OF conjI, OF _ o1, THEN conjunct1]
    by (simp add: r1)
  have c1: "contains (cross_mark @ '' 'bill.pdf' is empty'') (quoted ''bill.pdf'')"
    using u [THEN conjunct2, THEN conjunct1, THEN mp, OF conjI, OF _ o1, THEN conjunct2]
    by (simp add: r1)
  have m1: "main_process_claim (Some (\<lambda>file_paths. Inr (length file_paths)))
      (Inr ''/tmp/claim'') (\<lambda>temp_dir file. Inr (temp_dir @ ''/'' @ filename file)) [?bill] =
     (HTTPException 400 (cross_mark @ '' 'bill.pdf' is empty''), [])"
  proof -
    from u o1 obtain msg where
      "validate_pdf_files [?bill] = Inl (ValueError msg)"
      "main_process_claim (Some (\<lambda>file_paths. Inr (length file_paths)))
         (Inr ''/tmp/claim'') (\<lambda>temp_dir file. Inr (temp_dir @ ''/'' @ filename file))
         [?bill] = (HTTPException 400 msg, [])"
      by auto
    with v1 show ?thesis by simp
  qed
  have v3: "validate_pdf_files [?id, ?scan, ?notes] =
     Inl (ValueError (cross_mark @ '' 'scan.PDF' exceeds 25MB (25.00MB)''))"
    using upload_validation [where good = "[?id]" and f = ?scan and rest = "[?notes]",
        THEN conjunct2, THEN conjunct1, THEN mp, OF conjI, OF o2 o3, THEN conjunct1]
    by (simp add: r3)
  have v4: "validate_pdf_files [?notes] = Inl (ValueError (cross_mark @ '' 'notes.txt' is not a PDF''))"
    using upload_validation [where good = "[]" and f = ?notes and rest = "[]",
        THEN conjunct2, THEN conjunct1, THEN mp, OF conjI, OF _ o4, THEN conjunct1]
    by (simp add: r4)
  have ex: "\<exists>f \<in> set [?bill]. offending f" using o1 by simp
  have v5: "validate_pdf_files [?bill] = Inl (ValueError (rejection ?bill))"
    using u [THEN conjunct2, THEN conjunct2, THEN conjunct1, THEN mp, OF ex] by simp
  from v1 c1 m1 v3 v4 o1 v5 show ?thesis by (intro conjI)
qed

end
